theory Spec2Isabelle
  imports Complex_Main "HOL-Library.Word"
begin

unbundle bit_operations_syntax

section \<open>Go values used by the repository\<close>

subsection \<open>Errors (package errors of the repository, and the errors built by fmt.Errorf)\<close>

text \<open>
  A Go \<open>error\<close> value is one of the concrete error types that occur in the repository:
  \<^item> \<open>ErrorString s\<close>: what \<open>fmt.Errorf\<close> returns when its format has no \<open>%w\<close> verb
    (an \<open>*errors.errorString\<close>); it has no \<open>Unwrap\<close> method;
  \<^item> \<open>WrapError msg err\<close>: what \<open>fmt.Errorf\<close> returns for a format with one \<open>%w\<close>
    verb (a \<open>*fmt.wrapError\<close>): the formatted message and the wrapped error;
  \<^item> \<open>ConfigurationError field message cause\<close>, \<open>AuthenticationErr message cause
    retryAttempt maxRetries\<close> and \<open>DataProcessError step message cause recoverable
    recoveryAction\<close>: the three struct types of the package \<open>errors\<close>, seen through the
    \<open>error\<close> interface;
  \<^item> \<open>UnmarshalTypeError value type field\<close>: the error of \<open>encoding/json\<close> for a JSON
    value that does not fit the Go type it is decoded into; \<open>field\<close> is the struct and
    the path of the field, as the message has them (\<open>Struct.path\<close>), and empty when the
    value is in no struct.
  A \<open>nil\<close> error is \<open>None\<close> of \<open>go_error option\<close>.
\<close>

datatype go_error =
    ErrorString string
  | WrapError string go_error
  | ConfigurationError string string "go_error option"
  | AuthenticationErr string "go_error option" int int
  | DataProcessError string string "go_error option" bool string
  | UnmarshalTypeError string string string

definition quote :: "string \<Rightarrow> string" where
  "quote s = CHR 0x27 # s @ [CHR 0x27]"

text \<open>The \<open>Error()\<close> methods.\<close>

fun Error :: "go_error \<Rightarrow> string" where
  "Error (ErrorString s) = s"
| "Error (WrapError msg err) = msg"
| "Error (ConfigurationError field message cause) =
     (if field \<noteq> [] then ''configuration error in field '' @ quote field @ '': '' @ message
      else ''configuration error: '' @ message)"
| "Error (AuthenticationErr message cause retryAttempt maxRetries) =
     ''authentication error: '' @ message"
| "Error (DataProcessError step message cause recoverable recoveryAction) =
     (if step \<noteq> [] then ''data process error in step '' @ quote step @ '': '' @ message
      else ''data process error: '' @ message)"
| "Error (UnmarshalTypeError v t field) =
     (if field \<noteq> [] then
        ''json: cannot unmarshal '' @ v @ '' into Go struct field '' @ field @ '' of type '' @ t
      else ''json: cannot unmarshal '' @ v @ '' into Go value of type '' @ t)"

text \<open>The \<open>Unwrap()\<close> methods; \<open>None\<close> where the type has no such method or returns nil.\<close>

fun Unwrap :: "go_error \<Rightarrow> go_error option" where
  "Unwrap (ErrorString s) = None"
| "Unwrap (WrapError msg err) = Some err"
| "Unwrap (ConfigurationError field message cause) = cause"
| "Unwrap (AuthenticationErr message cause retryAttempt maxRetries) = cause"
| "Unwrap (DataProcessError step message cause recoverable recoveryAction) = cause"
| "Unwrap (UnmarshalTypeError v t field) = None"

text \<open>
  \<open>errors.As(err, &target)\<close> for a target of type \<open>*ConfigurationError\<close>: it walks the
  chain of \<open>Unwrap\<close> from \<open>err\<close> and answers true at the first error of that type.
\<close>

fun As_ConfigurationError :: "go_error \<Rightarrow> bool" where
  "As_ConfigurationError (ErrorString s) = False"
| "As_ConfigurationError (WrapError msg err) = As_ConfigurationError err"
| "As_ConfigurationError (ConfigurationError field message cause) = True"
| "As_ConfigurationError (AuthenticationErr message cause retryAttempt maxRetries) =
     (case cause of None \<Rightarrow> False | Some err \<Rightarrow> As_ConfigurationError err)"
| "As_ConfigurationError (DataProcessError step message cause recoverable recoveryAction) =
     (case cause of None \<Rightarrow> False | Some err \<Rightarrow> As_ConfigurationError err)"
| "As_ConfigurationError (UnmarshalTypeError v t field) = False"

definition NewConfigurationError :: "string \<Rightarrow> string \<Rightarrow> go_error option \<Rightarrow> go_error" where
  "NewConfigurationError field message cause = ConfigurationError field message cause"

definition IsConfigurationError :: "go_error option \<Rightarrow> bool" where
  "IsConfigurationError err =
     (case err of None \<Rightarrow> False | Some e \<Rightarrow> As_ConfigurationError e)"

subsection \<open>Formatting (fmt) and membership (slices)\<close>

text \<open>\<open>%d\<close> of a non-negative index.\<close>

definition digits :: string where
  "digits = ''0123456789''"

function itoa :: "nat \<Rightarrow> string" where
  "itoa n = (if n < 10 then [digits ! n] else itoa (n div 10) @ [digits ! (n mod 10)])"
  by pat_completeness auto
termination
  by (relation "measure (\<lambda>n. n)") auto

text \<open>\<open>%v\<close> of a \<open>[]string\<close>: the elements separated by one space, in brackets.\<close>

fun join :: "string \<Rightarrow> string list \<Rightarrow> string" where
  "join sep [] = []"
| "join sep [x] = x"
| "join sep (x # y # ys) = x @ sep @ join sep (y # ys)"

definition fmt_v :: "string list \<Rightarrow> string" where
  "fmt_v xs = ''['' @ join '' '' xs @ '']''"

text \<open>\<open>fmt.Errorf(prefix + "%w", err)\<close>.\<close>

definition Errorf_w :: "string \<Rightarrow> go_error \<Rightarrow> go_error" where
  "Errorf_w prefix err = WrapError (prefix @ Error err) err"

definition Contains :: "'a list \<Rightarrow> 'a \<Rightarrow> bool" where
  "Contains s v = (v \<in> set s)"

subsection \<open>Slices\<close>

text \<open>
  A slice of the configuration model is an optional list: \<open>None\<close> is the nil slice,
  \<open>Some xs\<close> a slice that is not nil and holds the elements \<open>xs\<close>, so \<open>Some []\<close> is
  an empty slice that is not nil. \<open>elems s\<close> are the elements that \<open>range s\<close> visits,
  in their order, and \<open>length (elems s)\<close> is \<open>len(s)\<close>.
\<close>

definition elems :: "'a list option \<Rightarrow> 'a list" where
  "elems s = (case s of None \<Rightarrow> [] | Some xs \<Rightarrow> xs)"

subsection \<open>utils.RandomString\<close>

text \<open>
  \<open>crypto/rand.Read\<close> fills the buffer with bytes of the system's entropy source; the
  source is an input of the model: byte number \<open>i\<close> of the stream is \<open>rand i\<close>.
  \<open>hex.EncodeToString\<close> writes two lower-case hexadecimal digits for every byte.
\<close>

type_synonym entropy = "nat \<Rightarrow> 8 word"

definition hextable :: string where
  "hextable = ''0123456789abcdef''"

definition EncodeToString :: "8 word list \<Rightarrow> string" where
  "EncodeToString src =
     concat (map (\<lambda>v. [hextable ! unat (drop_bit 4 v), hextable ! unat (v AND 0x0f)]) src)"

definition RandomString :: "entropy \<Rightarrow> nat \<Rightarrow> string" where
  "RandomString rand n = EncodeToString (map rand [0..<n])"

definition zero_entropy :: entropy where
  "zero_entropy = (\<lambda>i. 0)"

text \<open>An entropy source that starts with the bytes \<open>bs\<close>.\<close>

definition entropy_of :: "8 word list \<Rightarrow> entropy" where
  "entropy_of bs = (\<lambda>i. if i < length bs then bs ! i else 0)"

section \<open>The configuration model (package entities)\<close>

record FilterConfig =
  Column :: string
  Value :: string
  Operator :: string
  LogicalOperator :: string

record MergeConfig =
  FirstColumn :: string
  SecondColumn :: string
  Strategy :: string
  DefaultValues :: "string list option"
  ResultColumnName :: string

record Aggregation =
  Column :: string
  AggregateMethod :: string
  ResultName :: string

record AggregationConfig =
  GroupingColumns :: "string list option"
  Aggregations :: "Aggregation list option"

record Config =
  Name :: string
  Description :: string
  Creator :: string
  Type :: string
  Source :: string
  Filters :: "FilterConfig list option"
  MergeColumns :: "MergeConfig list option"
  Aggregations :: "AggregationConfig list option"
  OutputFormat :: string

text \<open>
  The structs and the \<open>Validate\<close> methods are those of the file with the fields
  \<open>Type\<close> and \<open>Filters\<close>; \<open>internal/domain/entities/config.go\<close> has the same
  \<open>MergeConfig.Validate\<close>, \<open>AggregationConfig.Validate\<close> and \<open>Aggregation.Validate\<close>.
  The methods only take the length of a slice and range over it. A method with a
  pointer receiver that assigns to fields returns the updated struct next to its
  error; one that assigns to nothing returns its error only.
\<close>

definition validateOperators :: "string list" where
  "validateOperators = [''eq'', ''neq'', ''gt'', ''gte'', ''lt'', ''lte'']"

definition validateLogicalOperators :: "string list" where
  "validateLogicalOperators = [''and'', ''or'']"

definition FilterConfig_Validate :: "FilterConfig \<Rightarrow> go_error option" where
  "FilterConfig_Validate fc =
     (if FilterConfig.Column fc = [] then Some (ErrorString ''column is required'')
      else if Value fc = [] then Some (ErrorString ''value is required'')
      else if \<not> Contains validateOperators (Operator fc) then
        Some (ErrorString (''invalid operator '' @ quote (Operator fc)
          @ '', operator must be one of '' @ fmt_v validateOperators))
      else if \<not> Contains validateLogicalOperators (LogicalOperator fc) then
        Some (ErrorString (''invalid logical operator '' @ quote (LogicalOperator fc)
          @ '', operator must be one of '' @ fmt_v validateLogicalOperators))
      else None)"

definition validateStrategies :: "string list" where
  "validateStrategies = [''concat'', ''sum'', ''first'', ''second'']"

definition MergeConfig_Validate :: "MergeConfig \<Rightarrow> go_error option \<times> MergeConfig" where
  "MergeConfig_Validate m =
     (if FirstColumn m = [] then (Some (ErrorString ''firstColumn is required''), m)
      else if SecondColumn m = [] then (Some (ErrorString ''secondColumn is required''), m)
      else
        let m1 = (if Strategy m = [] then m\<lparr>Strategy := ''concat''\<rparr> else m);
            m2 = (if ResultColumnName m1 = []
                  then m1\<lparr>ResultColumnName := FirstColumn m1 @ ''_'' @ SecondColumn m1\<rparr>
                  else m1)
        in if \<not> Contains validateStrategies (Strategy m2) then
             (Some (ErrorString (''invalid strategy '' @ quote (Strategy m2)
                @ '', strategy must be one of '' @ fmt_v validateStrategies)), m2)
           else (None, m2))"

definition validateAggregateMethods :: "string list" where
  "validateAggregateMethods = [''sum'', ''avg'', ''min'', ''max'', ''count'', ''median'']"

definition Aggregation_Validate :: "Aggregation \<Rightarrow> go_error option \<times> Aggregation" where
  "Aggregation_Validate a =
     (if Aggregation.Column a = [] then (Some (ErrorString ''column is required''), a)
      else if AggregateMethod a = [] then (Some (ErrorString ''aggregateMethod is required''), a)
      else
        let a1 = (if ResultName a = []
                  then a\<lparr>ResultName := Aggregation.Column a @ ''_'' @ AggregateMethod a\<rparr>
                  else a)
        in if \<not> Contains validateAggregateMethods (AggregateMethod a1) then
             (Some (ErrorString (''invalid aggregateMethod '' @ quote (AggregateMethod a1)
                @ '', aggregateMethod must be one of '' @ fmt_v validateAggregateMethods)), a1)
           else (None, a1))"

text \<open>
  The loops \<open>for i, x := range xs { if err := x.Validate(); err != nil { return
  fmt.Errorf("label[%d]: %w", i, err) } }\<close>. The loop variable \<open>x\<close> is a copy of
  \<open>xs[i]\<close>: what \<open>x.Validate()\<close> assigns through its pointer receiver lands in the
  copy, so the loop takes the error of the element's validation and the slice stays as
  it was. \<open>validate\<close> is that error; \<open>i\<close> is the index of the head of the list.
\<close>

fun range_Validate :: "string \<Rightarrow> ('a \<Rightarrow> go_error option) \<Rightarrow> nat \<Rightarrow> 'a list \<Rightarrow> go_error option" where
  "range_Validate label validate i [] = None"
| "range_Validate label validate i (x # xs) =
     (case validate x of
        Some err \<Rightarrow> Some (Errorf_w (label @ ''['' @ itoa i @ '']: '') err)
      | None \<Rightarrow> range_Validate label validate (Suc i) xs)"

definition AggregationConfig_Validate :: "AggregationConfig \<Rightarrow> go_error option" where
  "AggregationConfig_Validate ac =
     (if length (elems (GroupingColumns ac)) = 0 then
        Some (ErrorString ''groupingColumns cannot be empty'')
      else if length (elems (AggregationConfig.Aggregations ac)) = 0 then
        Some (ErrorString ''aggregations cannot be empty'')
      else range_Validate ''aggregation'' (\<lambda>aggregation. fst (Aggregation_Validate aggregation)) 0
             (elems (AggregationConfig.Aggregations ac)))"

text \<open>
  \<open>Config.Validate\<close>: the error it returns and the configuration as the call leaves it.
  \<open>rand\<close> is the entropy that \<open>utils.RandomString\<close> reads.
\<close>

definition Config_Validate :: "entropy \<Rightarrow> Config \<Rightarrow> go_error option \<times> Config" where
  "Config_Validate rand c =
     (let c1 = (if Name c = [] then c\<lparr>Name := ''UntitledConfig_'' @ RandomString rand 10\<rparr> else c)
      in if Type c1 = [] then
           (Some (ErrorString ''type is required, valid values are: csv, googlesheets''), c1)
         else if Source c1 = [] then (Some (ErrorString ''source is required''), c1)
         else
           let c2 = (if OutputFormat c1 = [] then c1\<lparr>OutputFormat := ''csv''\<rparr> else c1)
           in case range_Validate ''filter'' FilterConfig_Validate 0 (elems (Filters c2)) of
                Some err \<Rightarrow> (Some err, c2)
              | None \<Rightarrow>
                 (case range_Validate ''mergeColumn''
                         (\<lambda>mergeColumn. fst (MergeConfig_Validate mergeColumn)) 0
                         (elems (MergeColumns c2)) of
                    Some err \<Rightarrow> (Some err, c2)
                  | None \<Rightarrow>
                     (case range_Validate ''aggregation'' AggregationConfig_Validate 0
                             (elems (Config.Aggregations c2)) of
                        Some err \<Rightarrow> (Some err, c2)
                      | None \<Rightarrow> (None, c2))))"

section \<open>Config.ToJSON and Config.FromJSON\<close>

subsection \<open>JSON documents and Go strings\<close>

text \<open>
  \<open>json.MarshalIndent\<close> and \<open>json.Unmarshal\<close> belong to Go's library. The model keeps
  what they do with the structs of this repository (the member names and \<open>omitempty\<close>
  options of the struct tags, the order of the members, what a missing member, a
  \<open>null\<close> and a value of the wrong kind do) and leaves the text out: a JSON text is
  the document it denotes, a \<open>json\<close> value, so \<open>ToJSON\<close> returns a document and
  \<open>FromJSON\<close> takes one (a text with a syntax error has no document). \<open>JString s\<close>
  carries the bytes of the string with the escapes of its literal resolved, and so does
  the name of a member of an object.

  A Go string is a sequence of bytes. The encoder writes a string as a JSON string
  "coerced to valid UTF-8, replacing invalid bytes with the Unicode replacement rune"
  (documentation of \<open>json.Marshal\<close>), and the decoder does the same to the bytes of a
  literal. \<open>DecodeRune\<close> is \<open>utf8.DecodeRune\<close> without the rune: \<open>Some n\<close> for a
  well-formed encoding of \<open>n\<close> bytes at the head of the string, \<open>None\<close> where Go answers
  \<open>(RuneError, 1)\<close>.
\<close>

datatype json =
    JNull
  | JBool bool
  | JNumber string
  | JString string
  | JArray "json list"
  | JObject "(string \<times> json) list"

text \<open>
  The table \<open>first\<close> of package \<open>utf8\<close> with its \<open>acceptRanges\<close>: for a leading byte,
  the size of the encoding and the range of the second byte.
\<close>

definition first :: "nat \<Rightarrow> (nat \<times> nat \<times> nat) option" where
  "first x =
     (if 0xC2 \<le> x \<and> x \<le> 0xDF then Some (2, 0x80, 0xBF)
      else if x = 0xE0 then Some (3, 0xA0, 0xBF)
      else if 0xE1 \<le> x \<and> x \<le> 0xEC then Some (3, 0x80, 0xBF)
      else if x = 0xED then Some (3, 0x80, 0x9F)
      else if 0xEE \<le> x \<and> x \<le> 0xEF then Some (3, 0x80, 0xBF)
      else if x = 0xF0 then Some (4, 0x90, 0xBF)
      else if 0xF1 \<le> x \<and> x \<le> 0xF3 then Some (4, 0x80, 0xBF)
      else if x = 0xF4 then Some (4, 0x80, 0x8F)
      else None)"

definition between :: "char \<Rightarrow> nat \<Rightarrow> nat \<Rightarrow> bool" where
  "between b lo hi = (lo \<le> of_char b \<and> (of_char b :: nat) \<le> hi)"

definition DecodeRune :: "string \<Rightarrow> nat option" where
  "DecodeRune p =
     (case p of
        [] \<Rightarrow> None
      | p0 # rest \<Rightarrow>
         if (of_char p0 :: nat) < 0x80 then Some 1
         else
           (case first (of_char p0) of
              None \<Rightarrow> None
            | Some (sz, lo, hi) \<Rightarrow>
               if length p < sz then None
               else if \<not> between (p ! 1) lo hi then None
               else if sz \<le> 2 then Some 2
               else if \<not> between (p ! 2) 0x80 0xBF then None
               else if sz \<le> 3 then Some 3
               else if \<not> between (p ! 3) 0x80 0xBF then None
               else Some 4))"

text \<open>The encoding of U+FFFD, the replacement rune.\<close>

definition RuneError :: string where
  "RuneError = [CHR 0xEF, CHR 0xBF, CHR 0xBD]"

function coerce :: "string \<Rightarrow> string" where
  "coerce [] = []"
| "coerce (b # bs) =
     (case DecodeRune (b # bs) of
        None \<Rightarrow> RuneError @ coerce bs
      | Some n \<Rightarrow> b # take (n - 1) bs @ coerce (drop (n - 1) bs))"
  by pat_completeness auto
termination
  by (relation "measure length") auto

definition ValidString :: "string \<Rightarrow> bool" where
  "ValidString s = (coerce s = s)"

subsection \<open>Marshal: the struct tags of the configuration model\<close>

text \<open>
  A member with the option \<open>omitempty\<close> is left out when its value is empty: a string
  or a slice of length 0, nil or not. A slice that is written is \<open>null\<close> when it is
  nil and an array of its elements otherwise.
\<close>

definition omitempty :: "string \<Rightarrow> bool \<Rightarrow> json \<Rightarrow> (string \<times> json) list" where
  "omitempty name isEmpty v = (if isEmpty then [] else [(name, v)])"

definition Marshal_string :: "string \<Rightarrow> json" where
  "Marshal_string s = JString (coerce s)"

definition Marshal_slice :: "('a \<Rightarrow> json) \<Rightarrow> 'a list option \<Rightarrow> json" where
  "Marshal_slice element s =
     (case s of None \<Rightarrow> JNull | Some xs \<Rightarrow> JArray (map element xs))"

definition Marshal_FilterConfig :: "FilterConfig \<Rightarrow> json" where
  "Marshal_FilterConfig fc =
     JObject [(''column'', Marshal_string (FilterConfig.Column fc)),
              (''value'', Marshal_string (Value fc)),
              (''operator'', Marshal_string (Operator fc)),
              (''logicalOperator'', Marshal_string (LogicalOperator fc))]"

definition Marshal_MergeConfig :: "MergeConfig \<Rightarrow> json" where
  "Marshal_MergeConfig m =
     JObject ([(''firstColumn'', Marshal_string (FirstColumn m)),
               (''secondColumn'', Marshal_string (SecondColumn m)),
               (''strategy'', Marshal_string (Strategy m))]
              @ omitempty ''defaultValues'' (length (elems (DefaultValues m)) = 0)
                  (Marshal_slice Marshal_string (DefaultValues m))
              @ omitempty ''resultColumnName'' (length (ResultColumnName m) = 0)
                  (Marshal_string (ResultColumnName m)))"

definition Marshal_Aggregation :: "Aggregation \<Rightarrow> json" where
  "Marshal_Aggregation a =
     JObject ([(''column'', Marshal_string (Aggregation.Column a)),
               (''aggregateMethod'', Marshal_string (AggregateMethod a))]
              @ omitempty ''resultName'' (length (ResultName a) = 0)
                  (Marshal_string (ResultName a)))"

definition Marshal_AggregationConfig :: "AggregationConfig \<Rightarrow> json" where
  "Marshal_AggregationConfig ac =
     JObject [(''groupingColumns'', Marshal_slice Marshal_string (GroupingColumns ac)),
              (''aggregations'',
                 Marshal_slice Marshal_Aggregation (AggregationConfig.Aggregations ac))]"

definition Marshal_Config :: "Config \<Rightarrow> json" where
  "Marshal_Config c =
     JObject ([(''name'', Marshal_string (Name c)),
               (''description'', Marshal_string (Description c)),
               (''creator'', Marshal_string (Creator c)),
               (''type'', Marshal_string (Type c)),
               (''source'', Marshal_string (Source c))]
              @ omitempty ''filters'' (length (elems (Filters c)) = 0)
                  (Marshal_slice Marshal_FilterConfig (Filters c))
              @ omitempty ''mergeColumns'' (length (elems (MergeColumns c)) = 0)
                  (Marshal_slice Marshal_MergeConfig (MergeColumns c))
              @ omitempty ''aggregations'' (length (elems (Config.Aggregations c)) = 0)
                  (Marshal_slice Marshal_AggregationConfig (Config.Aggregations c))
              @ [(''outputFormat'', Marshal_string (OutputFormat c))])"

text \<open>
  \<open>json.MarshalIndent\<close> has no error for these types (strings and slices of structs of
  strings), so \<open>ToJSON\<close> always takes its second return.
\<close>

definition MarshalIndent :: "Config \<Rightarrow> go_error + json" where
  "MarshalIndent c = Inr (Marshal_Config c)"

definition ToJSON :: "Config \<Rightarrow> go_error + json" where
  "ToJSON c =
     (case MarshalIndent c of
        Inl err \<Rightarrow> Inl (Errorf_w ''failed to marshal Config to JSON: '' err)
      | Inr data \<Rightarrow> Inr data)"

subsection \<open>Unmarshal: the names of the members\<close>

text \<open>
  The decoder looks for the field whose tag is the name of the member, and then for
  the first field whose tag is equal to it under Unicode simple case folding
  (\<open>foldName\<close>, which is \<open>bytes.EqualFold\<close>). The tags of these structs are ASCII
  letters, so a name can only match when each of its runes folds to an ASCII letter:
  the ASCII characters, with the lower-case letters folded to upper case, the Kelvin
  sign U+212A, which folds to \<open>K\<close>, and the long s U+017F, which folds to \<open>S\<close>.
  \<open>foldName\<close> is \<open>None\<close> for a name with any other rune.
\<close>

definition upper :: "char \<Rightarrow> char" where
  "upper c = (if (97 :: nat) \<le> of_char c \<and> (of_char c :: nat) \<le> 122
              then ''ABCDEFGHIJKLMNOPQRSTUVWXYZ'' ! (of_char c - 97) else c)"

function foldName :: "string \<Rightarrow> string option" where
  "foldName [] = Some []"
| "foldName (c # cs) =
     (if (of_char c :: nat) < 0x80 then map_option ((#) (upper c)) (foldName cs)
      else if c # take 2 cs = [CHR 0xE2, CHR 0x84, CHR 0xAA]
        then map_option ((#) CHR ''K'') (foldName (drop 2 cs))
      else if c # take 1 cs = [CHR 0xC5, CHR 0xBF]
        then map_option ((#) CHR ''S'') (foldName (drop 1 cs))
      else None)"
  by pat_completeness auto
termination
  by (relation "measure length") auto

definition field_named :: "string list \<Rightarrow> string \<Rightarrow> string option" where
  "field_named tags name =
     (if name \<in> set tags then Some name
      else case foldName name of
             None \<Rightarrow> None
           | Some folded \<Rightarrow> find (\<lambda>tag. foldName tag = Some folded) tags)"

subsection \<open>Unmarshal: values\<close>

text \<open>
  Decoding stores into a value that exists: the fields of a new \<open>Config\<close> are zero,
  and a member that comes a second time is decoded into what the first one left.
  \<^item> A \<open>null\<close> leaves a string or a struct as it is and makes a slice nil.
  \<^item> An array makes a slice that is not nil; its element \<open>i\<close> is decoded into element
    \<open>i\<close> of the old slice where the old slice has one, and into a zero element
    otherwise. (The memory of a slice between its length and its capacity is taken to
    be zero, as it is unless an earlier array for the same slice was longer.)
  \<^item> An object is decoded member by member, in the order of the document, into the
    fields that \<open>field_named\<close> finds; a member that names no field is skipped.
  \<^item> A value of another kind is an \<open>UnmarshalTypeError\<close> with the kind of the value,
    the Go type, and the error context: the name of the struct being decoded and the
    path of member names from the root, joined as \<open>Struct.path\<close> in the message (no
    context outside any struct). Go goes on decoding after such an error and returns
    the first one at the end; the model returns it at once, the decoded value being
    dropped.
\<close>

type_synonym errorContext = "string \<times> string list"

definition context_field :: "errorContext \<Rightarrow> string" where
  "context_field ctx =
     (case ctx of (strct, stack) \<Rightarrow>
        if strct = [] \<and> stack = [] then [] else strct @ ''.'' @ join ''.'' stack)"

definition kind :: "json \<Rightarrow> string" where
  "kind v = (case v of JNull \<Rightarrow> ''null'' | JBool b \<Rightarrow> ''bool'' | JNumber n \<Rightarrow> ''number''
             | JString s \<Rightarrow> ''string'' | JArray vs \<Rightarrow> ''array'' | JObject ms \<Rightarrow> ''object'')"

definition TypeError :: "errorContext \<Rightarrow> json \<Rightarrow> string \<Rightarrow> go_error" where
  "TypeError ctx v typ = UnmarshalTypeError (kind v) typ (context_field ctx)"

definition Unmarshal_string :: "errorContext \<Rightarrow> json \<Rightarrow> string \<Rightarrow> go_error + string" where
  "Unmarshal_string ctx v old =
     (case v of
        JString s \<Rightarrow> Inr (coerce s)
      | JNull \<Rightarrow> Inr old
      | _ \<Rightarrow> Inl (TypeError ctx v ''string''))"

fun Unmarshal_elements ::
    "(json \<Rightarrow> 'a \<Rightarrow> go_error + 'a) \<Rightarrow> 'a \<Rightarrow> json list \<Rightarrow> 'a list \<Rightarrow> go_error + 'a list" where
  "Unmarshal_elements element zero [] old = Inr []"
| "Unmarshal_elements element zero (v # vs) old =
     (case element v (case old of [] \<Rightarrow> zero | x # xs \<Rightarrow> x) of
        Inl err \<Rightarrow> Inl err
      | Inr y \<Rightarrow>
         (case Unmarshal_elements element zero vs (tl old) of
            Inl err \<Rightarrow> Inl err
          | Inr ys \<Rightarrow> Inr (y # ys)))"

definition Unmarshal_slice ::
    "errorContext \<Rightarrow> string \<Rightarrow> (json \<Rightarrow> 'a \<Rightarrow> go_error + 'a) \<Rightarrow> 'a \<Rightarrow> json \<Rightarrow> 'a list option
       \<Rightarrow> go_error + 'a list option" where
  "Unmarshal_slice ctx typ element zero v old =
     (case v of
        JArray vs \<Rightarrow>
         (case Unmarshal_elements element zero vs (elems old) of
            Inl err \<Rightarrow> Inl err
          | Inr xs \<Rightarrow> Inr (Some xs))
      | JNull \<Rightarrow> Inr None
      | _ \<Rightarrow> Inl (TypeError ctx v typ))"

fun Unmarshal_members ::
    "(string \<Rightarrow> json \<Rightarrow> 'a \<Rightarrow> go_error + 'a) \<Rightarrow> (string \<times> json) list \<Rightarrow> 'a \<Rightarrow> go_error + 'a" where
  "Unmarshal_members member [] x = Inr x"
| "Unmarshal_members member ((name, v) # ms) x =
     (case member name v x of
        Inl err \<Rightarrow> Inl err
      | Inr x' \<Rightarrow> Unmarshal_members member ms x')"

definition Unmarshal_struct ::
    "errorContext \<Rightarrow> string \<Rightarrow> (string \<Rightarrow> json \<Rightarrow> 'a \<Rightarrow> go_error + 'a) \<Rightarrow> json \<Rightarrow> 'a
       \<Rightarrow> go_error + 'a" where
  "Unmarshal_struct ctx typ member v x =
     (case v of
        JObject ms \<Rightarrow> Unmarshal_members member ms x
      | JNull \<Rightarrow> Inr x
      | _ \<Rightarrow> Inl (TypeError ctx v typ))"

text \<open>Storing a decoded value into a field.\<close>

definition store :: "go_error + 'b \<Rightarrow> ('b \<Rightarrow> 'a) \<Rightarrow> go_error + 'a" where
  "store r upd = (case r of Inl err \<Rightarrow> Inl err | Inr y \<Rightarrow> Inr (upd y))"

subsection \<open>Unmarshal: the structs of the configuration model\<close>

text \<open>
  For each struct: its zero value, the decoding of one member (\<open>stack\<close> is the path of
  member names that leads to the struct) and the decoding of a value into the struct.
\<close>

definition new_FilterConfig :: FilterConfig where
  "new_FilterConfig = \<lparr>FilterConfig.Column = [], Value = [], Operator = [], LogicalOperator = []\<rparr>"

definition FilterConfig_member ::
    "string list \<Rightarrow> string \<Rightarrow> json \<Rightarrow> FilterConfig \<Rightarrow> go_error + FilterConfig" where
  "FilterConfig_member stack name v fc =
     (case field_named [''column'', ''value'', ''operator'', ''logicalOperator''] name of
        None \<Rightarrow> Inr fc
      | Some f \<Rightarrow>
         let ctx = (''FilterConfig'', stack @ [f]) in
         if f = ''column'' then
           store (Unmarshal_string ctx v (FilterConfig.Column fc)) (\<lambda>s. fc\<lparr>FilterConfig.Column := s\<rparr>)
         else if f = ''value'' then
           store (Unmarshal_string ctx v (Value fc)) (\<lambda>s. fc\<lparr>Value := s\<rparr>)
         else if f = ''operator'' then
           store (Unmarshal_string ctx v (Operator fc)) (\<lambda>s. fc\<lparr>Operator := s\<rparr>)
         else
           store (Unmarshal_string ctx v (LogicalOperator fc)) (\<lambda>s. fc\<lparr>LogicalOperator := s\<rparr>))"

definition Unmarshal_FilterConfig ::
    "errorContext \<Rightarrow> json \<Rightarrow> FilterConfig \<Rightarrow> go_error + FilterConfig" where
  "Unmarshal_FilterConfig ctx v fc =
     Unmarshal_struct ctx ''entities.FilterConfig'' (FilterConfig_member (snd ctx)) v fc"

definition new_MergeConfig :: MergeConfig where
  "new_MergeConfig = \<lparr>FirstColumn = [], SecondColumn = [], Strategy = [], DefaultValues = None,
                      ResultColumnName = []\<rparr>"

definition MergeConfig_member ::
    "string list \<Rightarrow> string \<Rightarrow> json \<Rightarrow> MergeConfig \<Rightarrow> go_error + MergeConfig" where
  "MergeConfig_member stack name v m =
     (case field_named [''firstColumn'', ''secondColumn'', ''strategy'', ''defaultValues'',
                        ''resultColumnName''] name of
        None \<Rightarrow> Inr m
      | Some f \<Rightarrow>
         let ctx = (''MergeConfig'', stack @ [f]) in
         if f = ''firstColumn'' then
           store (Unmarshal_string ctx v (FirstColumn m)) (\<lambda>s. m\<lparr>FirstColumn := s\<rparr>)
         else if f = ''secondColumn'' then
           store (Unmarshal_string ctx v (SecondColumn m)) (\<lambda>s. m\<lparr>SecondColumn := s\<rparr>)
         else if f = ''strategy'' then
           store (Unmarshal_string ctx v (Strategy m)) (\<lambda>s. m\<lparr>Strategy := s\<rparr>)
         else if f = ''defaultValues'' then
           store (Unmarshal_slice ctx ''[]string'' (Unmarshal_string ctx) [] v (DefaultValues m))
             (\<lambda>xs. m\<lparr>DefaultValues := xs\<rparr>)
         else
           store (Unmarshal_string ctx v (ResultColumnName m)) (\<lambda>s. m\<lparr>ResultColumnName := s\<rparr>))"

definition Unmarshal_MergeConfig ::
    "errorContext \<Rightarrow> json \<Rightarrow> MergeConfig \<Rightarrow> go_error + MergeConfig" where
  "Unmarshal_MergeConfig ctx v m =
     Unmarshal_struct ctx ''entities.MergeConfig'' (MergeConfig_member (snd ctx)) v m"

definition new_Aggregation :: Aggregation where
  "new_Aggregation = \<lparr>Aggregation.Column = [], AggregateMethod = [], ResultName = []\<rparr>"

definition Aggregation_member ::
    "string list \<Rightarrow> string \<Rightarrow> json \<Rightarrow> Aggregation \<Rightarrow> go_error + Aggregation" where
  "Aggregation_member stack name v a =
     (case field_named [''column'', ''aggregateMethod'', ''resultName''] name of
        None \<Rightarrow> Inr a
      | Some f \<Rightarrow>
         let ctx = (''Aggregation'', stack @ [f]) in
         if f = ''column'' then
           store (Unmarshal_string ctx v (Aggregation.Column a)) (\<lambda>s. a\<lparr>Aggregation.Column := s\<rparr>)
         else if f = ''aggregateMethod'' then
           store (Unmarshal_string ctx v (AggregateMethod a)) (\<lambda>s. a\<lparr>AggregateMethod := s\<rparr>)
         else
           store (Unmarshal_string ctx v (ResultName a)) (\<lambda>s. a\<lparr>ResultName := s\<rparr>))"

definition Unmarshal_Aggregation ::
    "errorContext \<Rightarrow> json \<Rightarrow> Aggregation \<Rightarrow> go_error + Aggregation" where
  "Unmarshal_Aggregation ctx v a =
     Unmarshal_struct ctx ''entities.Aggregation'' (Aggregation_member (snd ctx)) v a"

definition new_AggregationConfig :: AggregationConfig where
  "new_AggregationConfig = \<lparr>GroupingColumns = None, AggregationConfig.Aggregations = None\<rparr>"

definition AggregationConfig_member ::
    "string list \<Rightarrow> string \<Rightarrow> json \<Rightarrow> AggregationConfig \<Rightarrow> go_error + AggregationConfig" where
  "AggregationConfig_member stack name v ac =
     (case field_named [''groupingColumns'', ''aggregations''] name of
        None \<Rightarrow> Inr ac
      | Some f \<Rightarrow>
         let ctx = (''AggregationConfig'', stack @ [f]) in
         if f = ''groupingColumns'' then
           store (Unmarshal_slice ctx ''[]string'' (Unmarshal_string ctx) [] v (GroupingColumns ac))
             (\<lambda>xs. ac\<lparr>GroupingColumns := xs\<rparr>)
         else
           store (Unmarshal_slice ctx ''[]entities.Aggregation'' (Unmarshal_Aggregation ctx)
                    new_Aggregation v (AggregationConfig.Aggregations ac))
             (\<lambda>xs. ac\<lparr>AggregationConfig.Aggregations := xs\<rparr>))"

definition Unmarshal_AggregationConfig ::
    "errorContext \<Rightarrow> json \<Rightarrow> AggregationConfig \<Rightarrow> go_error + AggregationConfig" where
  "Unmarshal_AggregationConfig ctx v ac =
     Unmarshal_struct ctx ''entities.AggregationConfig'' (AggregationConfig_member (snd ctx)) v ac"

definition new_Config :: Config where
  "new_Config = \<lparr>Name = [], Description = [], Creator = [], Type = [], Source = [],
                 Filters = None, MergeColumns = None, Config.Aggregations = None,
                 OutputFormat = []\<rparr>"

definition Config_member :: "string list \<Rightarrow> string \<Rightarrow> json \<Rightarrow> Config \<Rightarrow> go_error + Config" where
  "Config_member stack name v c =
     (case field_named [''name'', ''description'', ''creator'', ''type'', ''source'', ''filters'',
                        ''mergeColumns'', ''aggregations'', ''outputFormat''] name of
        None \<Rightarrow> Inr c
      | Some f \<Rightarrow>
         let ctx = (''Config'', stack @ [f]) in
         if f = ''name'' then
           store (Unmarshal_string ctx v (Name c)) (\<lambda>s. c\<lparr>Name := s\<rparr>)
         else if f = ''description'' then
           store (Unmarshal_string ctx v (Description c)) (\<lambda>s. c\<lparr>Description := s\<rparr>)
         else if f = ''creator'' then
           store (Unmarshal_string ctx v (Creator c)) (\<lambda>s. c\<lparr>Creator := s\<rparr>)
         else if f = ''type'' then
           store (Unmarshal_string ctx v (Type c)) (\<lambda>s. c\<lparr>Type := s\<rparr>)
         else if f = ''source'' then
           store (Unmarshal_string ctx v (Source c)) (\<lambda>s. c\<lparr>Source := s\<rparr>)
         else if f = ''filters'' then
           store (Unmarshal_slice ctx ''[]entities.FilterConfig'' (Unmarshal_FilterConfig ctx)
                    new_FilterConfig v (Filters c))
             (\<lambda>xs. c\<lparr>Filters := xs\<rparr>)
         else if f = ''mergeColumns'' then
           store (Unmarshal_slice ctx ''[]entities.MergeConfig'' (Unmarshal_MergeConfig ctx)
                    new_MergeConfig v (MergeColumns c))
             (\<lambda>xs. c\<lparr>MergeColumns := xs\<rparr>)
         else if f = ''aggregations'' then
           store (Unmarshal_slice ctx ''[]entities.AggregationConfig''
                    (Unmarshal_AggregationConfig ctx) new_AggregationConfig v
                    (Config.Aggregations c))
             (\<lambda>xs. c\<lparr>Config.Aggregations := xs\<rparr>)
         else
           store (Unmarshal_string ctx v (OutputFormat c)) (\<lambda>s. c\<lparr>OutputFormat := s\<rparr>))"

text \<open>\<open>json.Unmarshal\<close> of a document into a new \<open>Config\<close>.\<close>

definition Unmarshal :: "json \<Rightarrow> go_error + Config" where
  "Unmarshal v = Unmarshal_struct ([], []) ''entities.Config'' (Config_member []) v new_Config"

text \<open>
  \<open>FromJSON\<close> on a new \<open>Config\<close>, as in \<open>var c Config; c.FromJSON(s)\<close>: the error, or
  the configuration that the call leaves when it returns nil.
\<close>

definition FromJSON :: "entropy \<Rightarrow> json \<Rightarrow> go_error + Config" where
  "FromJSON rand jsonString =
     (case Unmarshal jsonString of
        Inl err \<Rightarrow> Inl (Errorf_w ''failed to unmarshal JSON to Config: '' err)
      | Inr c \<Rightarrow>
         (case Config_Validate rand c of
            (Some err, c') \<Rightarrow> Inl err
          | (None, c') \<Rightarrow> Inr c'))"

subsection \<open>The configurations that JSON can carry\<close>

text \<open>Every string of a configuration is well-formed UTF-8.\<close>

definition ValidStrings_FilterConfig :: "FilterConfig \<Rightarrow> bool" where
  "ValidStrings_FilterConfig fc =
     (ValidString (FilterConfig.Column fc) \<and> ValidString (Value fc)
      \<and> ValidString (Operator fc) \<and> ValidString (LogicalOperator fc))"

definition ValidStrings_MergeConfig :: "MergeConfig \<Rightarrow> bool" where
  "ValidStrings_MergeConfig m =
     (ValidString (FirstColumn m) \<and> ValidString (SecondColumn m) \<and> ValidString (Strategy m)
      \<and> list_all ValidString (elems (DefaultValues m)) \<and> ValidString (ResultColumnName m))"

definition ValidStrings_Aggregation :: "Aggregation \<Rightarrow> bool" where
  "ValidStrings_Aggregation a =
     (ValidString (Aggregation.Column a) \<and> ValidString (AggregateMethod a)
      \<and> ValidString (ResultName a))"

definition ValidStrings_AggregationConfig :: "AggregationConfig \<Rightarrow> bool" where
  "ValidStrings_AggregationConfig ac =
     (list_all ValidString (elems (GroupingColumns ac))
      \<and> list_all ValidStrings_Aggregation (elems (AggregationConfig.Aggregations ac)))"

definition ValidStrings :: "Config \<Rightarrow> bool" where
  "ValidStrings c =
     (ValidString (Name c) \<and> ValidString (Description c) \<and> ValidString (Creator c)
      \<and> ValidString (Type c) \<and> ValidString (Source c)
      \<and> list_all ValidStrings_FilterConfig (elems (Filters c))
      \<and> list_all ValidStrings_MergeConfig (elems (MergeColumns c))
      \<and> list_all ValidStrings_AggregationConfig (elems (Config.Aggregations c))
      \<and> ValidString (OutputFormat c))"

text \<open>
  Every slice with the option \<open>omitempty\<close> (\<open>filters\<close>, \<open>mergeColumns\<close>, \<open>aggregations\<close>
  of the configuration, \<open>defaultValues\<close> of a merge directive) is nil when it is empty.
\<close>

definition NilIfEmpty :: "'a list option \<Rightarrow> bool" where
  "NilIfEmpty s = (s \<noteq> Some [])"

definition NilIfEmpty_Config :: "Config \<Rightarrow> bool" where
  "NilIfEmpty_Config c =
     (NilIfEmpty (Filters c) \<and> NilIfEmpty (MergeColumns c) \<and> NilIfEmpty (Config.Aggregations c)
      \<and> list_all (\<lambda>m. NilIfEmpty (DefaultValues m)) (elems (MergeColumns c)))"

section \<open>The authentication error (package errors)\<close>

text \<open>
  The struct \<open>AuthenticationError\<close> with its methods. \<open>RetryAttempt\<close> and \<open>MaxRetries\<close>
  are Go \<open>int\<close>s, modelled as unbounded integers: the counter is only ever incremented
  by one from zero.
\<close>

record AuthenticationError =
  Message :: string
  Cause :: "go_error option"
  RetryAttempt :: int
  MaxRetries :: int

definition AuthenticationError_error :: "AuthenticationError \<Rightarrow> go_error" where
  "AuthenticationError_error e =
     AuthenticationErr (Message e) (Cause e) (RetryAttempt e) (MaxRetries e)"

definition IsRetryable :: "AuthenticationError \<Rightarrow> bool" where
  "IsRetryable e = (RetryAttempt e < MaxRetries e)"

definition IncrementRetryAttempt :: "AuthenticationError \<Rightarrow> AuthenticationError" where
  "IncrementRetryAttempt e = e\<lparr>RetryAttempt := RetryAttempt e + 1\<rparr>"

definition NewAuthenticationError :: "string \<Rightarrow> go_error option \<Rightarrow> AuthenticationError" where
  "NewAuthenticationError message cause =
     \<lparr>Message = message, Cause = cause, RetryAttempt = 0, MaxRetries = 3\<rparr>"

definition NewAuthenticationErrorWithMaxRetries ::
    "string \<Rightarrow> go_error option \<Rightarrow> int \<Rightarrow> AuthenticationError" where
  "NewAuthenticationErrorWithMaxRetries message cause maxRetries =
     \<lparr>Message = message, Cause = cause, RetryAttempt = 0, MaxRetries = maxRetries\<rparr>"

section \<open>The run tracker (entities.Processing)\<close>

text \<open>
  \<open>uint64\<close> and \<open>uint32\<close> are words, so that \<open>-\<close> wraps around as Go's does. A
  \<open>time.Time\<close> is the instant in nanoseconds after the zero time, a \<open>time.Duration\<close> a
  number of nanoseconds; \<open>Time.Sub\<close> saturates at the bounds of \<open>int64\<close>. A \<open>float64\<close>
  is the real number it stands for, and the conversion \<open>float64(x)\<close>, \<open>/\<close> and \<open>*\<close> are
  taken without rounding: rounding keeps the sign and the order of results, which is
  all that is stated about them below. \<open>Data\<close> keeps the difference between a nil
  slice (\<open>None\<close>) and a slice of no rows (\<open>Some []\<close>), which \<open>GetColumnCount\<close> tests.
  The clock and \<open>runtime.ReadMemStats\<close> are inputs: \<open>now\<close> and the fields of
  \<open>runtime.MemStats\<close> that the code reads.
\<close>

type_synonym Time = int
type_synonym Duration = int

definition Sub :: "Time \<Rightarrow> Time \<Rightarrow> Duration" where
  "Sub t u = (let d = t - u in
     if d > 2 ^ 63 - 1 then 2 ^ 63 - 1 else if d < - (2 ^ 63) then - (2 ^ 63) else d)"

definition float64 :: "64 word \<Rightarrow> real" where
  "float64 x = real (unat x)"

record MemStats =
  Alloc :: "64 word"
  TotalAlloc :: "64 word"
  Sys :: "64 word"
  NumGC :: "32 word"

record MemoryStats =
  PeakAllocBytes :: "64 word"
  PeakSysBytes :: "64 word"
  TotalAllocBytes :: "64 word"
  FinalAllocBytes :: "64 word"
  NumGC :: "32 word"
  MemoryIncreasePercent :: real

record PerformanceEntry =
  StepName :: string
  StartTime :: Time
  EndTime :: Time
  Duration :: Duration
  InputRows :: int
  OutputRows :: int
  MemoryUsageBytes :: "64 word"

record ProcessingMetadata =
  SourceTotalRows :: int
  FilteredTotalRows :: int
  AppliedFilters :: "string list"
  PerformedAggregations :: "string list"
  PerformedMerges :: "string list"
  ProcessingTime :: Duration
  StartTime :: Time
  EndTime :: Time
  ConfigName :: string
  DataSource :: string
  MemoryStats :: MemoryStats
  StepPerformance :: "PerformanceEntry list"

record Processing =
  Data :: "int list list option"
  Metadata :: ProcessingMetadata

text \<open>\<open>len\<close> of a slice that may be nil.\<close>

definition len :: "'a list option \<Rightarrow> int" where
  "len s = (case s of None \<Rightarrow> 0 | Some xs \<Rightarrow> int (length xs))"

definition NewProcessing :: "Time \<Rightarrow> MemStats \<Rightarrow> int list list option \<Rightarrow> string \<Rightarrow> Processing" where
  "NewProcessing now initMemStats data configName =
     (let totalRows = len data in
      \<lparr>Data = data,
       Metadata =
         \<lparr>SourceTotalRows = totalRows,
          FilteredTotalRows = 0,
          AppliedFilters = [],
          PerformedAggregations = [],
          PerformedMerges = [],
          ProcessingTime = 0,
          ProcessingMetadata.StartTime = now,
          ProcessingMetadata.EndTime = 0,
          ConfigName = configName,
          DataSource = [],
          MemoryStats =
            \<lparr>PeakAllocBytes = Alloc initMemStats,
             PeakSysBytes = Sys initMemStats,
             TotalAllocBytes = TotalAlloc initMemStats,
             FinalAllocBytes = 0,
             MemoryStats.NumGC = MemStats.NumGC initMemStats,
             MemoryIncreasePercent = 0\<rparr>,
          StepPerformance = []\<rparr>\<rparr>)"

definition AddFilter :: "Processing \<Rightarrow> string \<Rightarrow> Processing" where
  "AddFilter p filterExp =
     p\<lparr>Metadata := (Metadata p)\<lparr>AppliedFilters := AppliedFilters (Metadata p) @ [filterExp]\<rparr>\<rparr>"

definition AddAggregation :: "Processing \<Rightarrow> string \<Rightarrow> string \<Rightarrow> Processing" where
  "AddAggregation p aggregationMethod targetColumn =
     (let aggregation = aggregationMethod @ ''('' @ targetColumn @ '')'' in
      p\<lparr>Metadata := (Metadata p)\<lparr>PerformedAggregations :=
           PerformedAggregations (Metadata p) @ [aggregation]\<rparr>\<rparr>)"

definition AddMerge :: "Processing \<Rightarrow> string \<Rightarrow> string \<Rightarrow> string \<Rightarrow> Processing" where
  "AddMerge p firstColumn secondColumn strategy =
     (let merge = firstColumn @ '' + '' @ secondColumn @ '' ('' @ strategy @ '')'' in
      p\<lparr>Metadata := (Metadata p)\<lparr>PerformedMerges := PerformedMerges (Metadata p) @ [merge]\<rparr>\<rparr>)"

definition UpdateRows :: "Processing \<Rightarrow> int \<Rightarrow> int \<Rightarrow> Processing" where
  "UpdateRows p originalRows filteredRows =
     p\<lparr>Metadata := (Metadata p)\<lparr>SourceTotalRows := originalRows,
                                FilteredTotalRows := filteredRows\<rparr>\<rparr>"

definition SetDataSourceInfo :: "Processing \<Rightarrow> string \<Rightarrow> Processing" where
  "SetDataSourceInfo p info = p\<lparr>Metadata := (Metadata p)\<lparr>DataSource := info\<rparr>\<rparr>"

definition CompleteProcess :: "Time \<Rightarrow> MemStats \<Rightarrow> Processing \<Rightarrow> Processing" where
  "CompleteProcess now memStats p =
     (let md1 = (Metadata p)\<lparr>ProcessingMetadata.EndTime := now\<rparr>;
          md2 = md1\<lparr>ProcessingTime :=
                  Sub (ProcessingMetadata.EndTime md1) (ProcessingMetadata.StartTime md1)\<rparr>;
          ms1 = (MemoryStats md2)\<lparr>FinalAllocBytes := Alloc memStats,
                                   TotalAllocBytes := TotalAlloc memStats,
                                   MemoryStats.NumGC := MemStats.NumGC memStats\<rparr>;
          ms2 = (if PeakAllocBytes ms1 > 0
                 then ms1\<lparr>MemoryIncreasePercent :=
                        float64 (Alloc memStats - PeakAllocBytes ms1)
                          / float64 (PeakAllocBytes ms1) * 100\<rparr>
                 else ms1);
          ms3 = (if Alloc memStats > PeakAllocBytes ms2
                 then ms2\<lparr>PeakAllocBytes := Alloc memStats\<rparr> else ms2);
          ms4 = (if Sys memStats > PeakSysBytes ms3
                 then ms3\<lparr>PeakSysBytes := Sys memStats\<rparr> else ms3)
      in p\<lparr>Metadata := md2\<lparr>MemoryStats := ms4\<rparr>\<rparr>)"

definition HasData :: "Processing \<Rightarrow> bool" where
  "HasData p = (len (Data p) > 0)"

definition GetRowCount :: "Processing \<Rightarrow> int" where
  "GetRowCount p = (if Data p = None then 0 else len (Data p))"

text \<open>
  A Go panic is a value: \<open>IndexOutOfRange i n\<close> is the run-time error "index out of
  range [i] with length n", \<open>PanicValue s\<close> a \<open>panic(s)\<close> of the code.
\<close>

datatype go_panic = IndexOutOfRange int int | PanicValue string

text \<open>\<open>s[i]\<close> of a slice that is not nil.\<close>

definition index :: "'a list \<Rightarrow> nat \<Rightarrow> go_panic + 'a" where
  "index s i = (if i < length s then Inr (s ! i)
                else Inl (IndexOutOfRange (int i) (int (length s))))"

definition GetColumnCount :: "Processing \<Rightarrow> go_panic + int" where
  "GetColumnCount p =
     (case Data p of
        None \<Rightarrow> Inr 0
      | Some rows \<Rightarrow>
         (case index rows 0 of
            Inl pnc \<Rightarrow> Inl pnc
          | Inr row \<Rightarrow> Inr (int (length row))))"

definition GetColumnNames :: "Processing \<Rightarrow> go_panic + string list" where
  "GetColumnNames p = Inl (PanicValue ''implement me'')"

text \<open>The fields of a run record that the three logging operations do not write.\<close>

definition same_but_logs :: "Processing \<Rightarrow> Processing \<Rightarrow> bool" where
  "same_but_logs p q =
     (Data q = Data p
      \<and> SourceTotalRows (Metadata q) = SourceTotalRows (Metadata p)
      \<and> FilteredTotalRows (Metadata q) = FilteredTotalRows (Metadata p)
      \<and> ProcessingTime (Metadata q) = ProcessingTime (Metadata p)
      \<and> ProcessingMetadata.StartTime (Metadata q) = ProcessingMetadata.StartTime (Metadata p)
      \<and> ProcessingMetadata.EndTime (Metadata q) = ProcessingMetadata.EndTime (Metadata p)
      \<and> ConfigName (Metadata q) = ConfigName (Metadata p)
      \<and> DataSource (Metadata q) = DataSource (Metadata p)
      \<and> MemoryStats (Metadata q) = MemoryStats (Metadata p)
      \<and> StepPerformance (Metadata q) = StepPerformance (Metadata p))"

section \<open>Properties\<close>

subsection \<open>Facts about the helpers\<close>

lemma elems_simps [simp]: "elems None = []" "elems (Some xs) = xs"
  by (simp_all add: elems_def)

lemma RandomString_length: "length (RandomString rand n) = 2 * n"
  by (simp add: RandomString_def EncodeToString_def length_concat comp_def sum_list_triv)

lemma concat_pairs_nth:
  "i < length xs \<Longrightarrow>
   concat (map (\<lambda>v. [f v, g v]) xs) ! (2 * i) = f (xs ! i)
   \<and> concat (map (\<lambda>v. [f v, g v]) xs) ! (2 * i + 1) = g (xs ! i)"
proof (induction xs arbitrary: i)
  case Nil
  then show ?case by simp
next
  case (Cons x xs)
  show ?case
  proof (cases i)
    case 0
    then show ?thesis by simp
  next
    case (Suc j)
    with Cons.prems have "j < length xs" by simp
    from Cons.IH [OF this] Suc show ?thesis by simp
  qed
qed

lemma RandomString_nth:
  assumes "i < n"
  shows "RandomString rand n ! (2 * i) = ''0123456789abcdef'' ! unat (drop_bit 4 (rand i))"
    and "RandomString rand n ! (2 * i + 1) = ''0123456789abcdef'' ! unat (rand i AND 0x0f)"
  using assms
    concat_pairs_nth [of i "map rand [0..<n]" "\<lambda>v. hextable ! unat (drop_bit 4 v)"
      "\<lambda>v. hextable ! unat (v AND 0x0f)"]
  by (simp_all add: RandomString_def EncodeToString_def hextable_def)

lemma high_nibble_less: "unat (drop_bit 4 (v :: 8 word)) < 16"
proof -
  have "unat (drop_bit 4 v) = unat v div 2 ^ 4"
    by (simp add: drop_bit_eq_div unat_div)
  moreover have "unat v < 2 ^ 8" using unsigned_less [of v] by simp
  ultimately show ?thesis by simp
qed

lemma low_nibble_less: "unat ((v :: 8 word) AND 0x0f) < 16"
proof -
  have "unat (v AND 0x0f) \<le> unat (0x0f :: 8 word)"
    by (rule word_and_le1 [THEN word_le_nat_alt [THEN iffD1]])
  then show ?thesis by simp
qed

lemma nibbles_eq:
  assumes "drop_bit 4 (v :: 8 word) = drop_bit 4 w" and "v AND 0x0f = w AND 0x0f"
  shows "v = w"
proof (rule bit_word_eqI)
  fix k assume "k < LENGTH(8)"
  have m: "(0x0f :: 8 word) = mask 4" by (simp add: mask_eq_exp_minus_1)
  show "bit v k = bit w k"
  proof (cases "k < 4")
    case True
    have "bit (v AND mask 4) k = bit (w AND mask 4) k" using assms(2) by (simp add: m)
    with True show ?thesis by (simp add: bit_and_iff bit_mask_iff)
  next
    case False
    then obtain j where j: "k = 4 + j" using le_Suc_ex [of 4 k] by auto
    have "bit (drop_bit 4 v) j = bit (drop_bit 4 w) j" using assms(1) by simp
    then show ?thesis by (simp add: bit_drop_bit_eq j add.commute)
  qed
qed

lemma hexdigit_inj:
  assumes "a < 16" and "b < 16"
    and "''0123456789abcdef'' ! a = ''0123456789abcdef'' ! b"
  shows "a = b"
proof -
  have "distinct ''0123456789abcdef''" by simp
  moreover have "a < length ''0123456789abcdef''" "b < length ''0123456789abcdef''"
    using assms by simp_all
  ultimately show ?thesis using assms(3) by (simp only: nth_eq_iff_index_eq)
qed

lemma RandomString_eq_iff:
  "RandomString rand n = RandomString rand' n \<longleftrightarrow> (\<forall>i<n. rand i = rand' i)"
proof
  assume eq: "RandomString rand n = RandomString rand' n"
  show "\<forall>i<n. rand i = rand' i"
  proof (intro allI impI)
    fix i assume i: "i < n"
    have "''0123456789abcdef'' ! unat (drop_bit 4 (rand i))
        = ''0123456789abcdef'' ! unat (drop_bit 4 (rand' i))"
      using RandomString_nth(1) [OF i, of rand] RandomString_nth(1) [OF i, of rand'] eq by simp
    then have "unat (drop_bit 4 (rand i)) = unat (drop_bit 4 (rand' i))"
      by (rule hexdigit_inj [OF high_nibble_less high_nibble_less])
    then have hi: "drop_bit 4 (rand i) = drop_bit 4 (rand' i)" by (simp add: word_unat_eq_iff)
    have "''0123456789abcdef'' ! unat (rand i AND 0x0f)
        = ''0123456789abcdef'' ! unat (rand' i AND 0x0f)"
      using RandomString_nth(2) [OF i, of rand] RandomString_nth(2) [OF i, of rand'] eq by simp
    then have "unat (rand i AND 0x0f) = unat (rand' i AND 0x0f)"
      by (rule hexdigit_inj [OF low_nibble_less low_nibble_less])
    then have lo: "rand i AND 0x0f = rand' i AND 0x0f" by (simp add: word_unat_eq_iff)
    from hi lo show "rand i = rand' i" by (rule nibbles_eq)
  qed
next
  assume "\<forall>i<n. rand i = rand' i"
  then have "map rand [0..<n] = map rand' [0..<n]" by simp
  then show "RandomString rand n = RandomString rand' n" by (simp only: RandomString_def)
qed

lemma range_Validate_None_iff:
  "range_Validate label validate i xs = None \<longleftrightarrow> (\<forall>x\<in>set xs. validate x = None)"
  by (induction xs arbitrary: i) (auto split: option.splits)

lemma range_Validate_first:
  assumes "k < length xs" and "validate (xs ! k) = Some err"
    and "\<forall>j<k. validate (xs ! j) = None"
  shows "range_Validate label validate i xs
           = Some (Errorf_w (label @ ''['' @ itoa (i + k) @ '']: '') err)"
  using assms
proof (induction xs arbitrary: i k)
  case Nil
  then show ?case by simp
next
  case (Cons x xs)
  show ?case
  proof (cases k)
    case 0
    with Cons.prems show ?thesis by simp
  next
    case (Suc k')
    from Cons.prems Suc have hd_ok: "validate x = None" by auto
    from Cons.prems Suc have "k' < length xs" "validate (xs ! k') = Some err"
      "\<forall>j<k'. validate (xs ! j) = None" by auto
    from Cons.IH [OF this, of "Suc i"] hd_ok Suc show ?thesis by simp
  qed
qed

lemma Config_Validate_nested_unchanged:
  "Filters (snd (Config_Validate rand c)) = Filters c
   \<and> MergeColumns (snd (Config_Validate rand c)) = MergeColumns c
   \<and> Config.Aggregations (snd (Config_Validate rand c)) = Config.Aggregations c"
  by (simp add: Config_Validate_def Let_def split: option.splits)

subsection \<open>Config.Validate\<close>

text \<open>
  Claim C1, as the code has it. For every configuration with a blank source and a
  non-blank type, \<open>Config.Validate()\<close> returns the error that \<open>fmt.Errorf("source is
  required")\<close> builds: its message names the field \<open>source\<close>, and it is a plain error,
  not a \<open>ConfigurationError\<close> (\<open>IsConfigurationError\<close> is false on it). No \<open>Validate\<close>
  method of the package builds a \<open>ConfigurationError\<close>.
\<close>

theorem Config_Validate_blank_source:
  assumes "Source c = []" and "Type c \<noteq> []"
  shows "fst (Config_Validate rand c) = Some (ErrorString ''source is required'')
       \<and> Error (ErrorString ''source is required'') = ''source is required''
       \<and> \<not> IsConfigurationError (fst (Config_Validate rand c))"
  using assms
  by (simp add: Config_Validate_def Let_def IsConfigurationError_def)

theorem Config_Validate_blank_source_witness:
  "fst (Config_Validate zero_entropy
       \<lparr>Name = [], Description = [], Creator = [], Type = ''csv'', Source = [],
        Filters = None, MergeColumns = None, Config.Aggregations = None, OutputFormat = []\<rparr>)
     = Some (ErrorString ''source is required'')"
  using Config_Validate_blank_source [of
      "\<lparr>Name = [], Description = [], Creator = [], Type = ''csv'', Source = [],
        Filters = None, MergeColumns = None, Config.Aggregations = None, OutputFormat = []\<rparr>"
      zero_entropy]
  by simp

text \<open>
  Claim C1 as the specification states it fails on its own example: the error of
  \<open>Validate()\<close> on \<open>{source: "", type: "csv"}\<close> is not a \<open>ConfigurationError\<close>.
\<close>

theorem Config_Validate_blank_source_counterexample:
  "\<not> IsConfigurationError (fst (Config_Validate zero_entropy
       \<lparr>Name = [], Description = [], Creator = [], Type = ''csv'', Source = [],
        Filters = None, MergeColumns = None, Config.Aggregations = None, OutputFormat = []\<rparr>))"
  by (simp add: Config_Validate_def Let_def IsConfigurationError_def)

text \<open>
  Claim C4. For every merge directive with non-empty \<open>firstColumn\<close> and \<open>secondColumn\<close>,
  blank \<open>strategy\<close> and blank \<open>resultColumnName\<close>, \<open>MergeConfig.Validate()\<close> succeeds, and
  afterwards \<open>strategy\<close> is \<open>"concat"\<close> and \<open>resultColumnName\<close> is \<open>firstColumn + "_" +
  secondColumn\<close>; the call writes no other field of the directive.
\<close>

theorem MergeConfig_Validate_defaults:
  assumes "FirstColumn m \<noteq> []" and "SecondColumn m \<noteq> []"
    and "Strategy m = []" and "ResultColumnName m = []"
  shows "fst (MergeConfig_Validate m) = None
       \<and> Strategy (snd (MergeConfig_Validate m)) = ''concat''
       \<and> ResultColumnName (snd (MergeConfig_Validate m)) = FirstColumn m @ ''_'' @ SecondColumn m
       \<and> snd (MergeConfig_Validate m)
           = m\<lparr>Strategy := ''concat'', ResultColumnName := FirstColumn m @ ''_'' @ SecondColumn m\<rparr>"
  using assms
  by (simp add: MergeConfig_Validate_def Let_def Contains_def validateStrategies_def)

theorem MergeConfig_Validate_defaults_witness:
  "fst (MergeConfig_Validate \<lparr>FirstColumn = ''a'', SecondColumn = ''b'', Strategy = [],
          DefaultValues = None, ResultColumnName = []\<rparr>) = None
   \<and> snd (MergeConfig_Validate \<lparr>FirstColumn = ''a'', SecondColumn = ''b'', Strategy = [],
          DefaultValues = None, ResultColumnName = []\<rparr>)
       = \<lparr>FirstColumn = ''a'', SecondColumn = ''b'', Strategy = ''concat'',
          DefaultValues = None, ResultColumnName = ''a_b''\<rparr>"
  using MergeConfig_Validate_defaults [of
      "\<lparr>FirstColumn = ''a'', SecondColumn = ''b'', Strategy = [],
        DefaultValues = None, ResultColumnName = []\<rparr>"]
  by simp

text \<open>
  Claim C5, as the code has it. For every configuration with a non-blank type and a
  non-blank source that has an invalid nested entry, \<open>Config.Validate()\<close> returns the
  error \<open>e\<close> of the first invalid entry in validation order (the filters, then the merge
  directives, then the aggregation directives), wrapped by \<open>%w\<close> in a message that
  starts with the name of the collection and the index \<open>k\<close> of the entry:
  \<open>"filter[k]: "\<close>, \<open>"mergeColumn[k]: "\<close> or \<open>"aggregation[k]: "\<close>. The entries after
  index \<open>k\<close> are not looked at (nothing is assumed of them), and no entry has its
  defaults filled: the three lists are as they were before the call.
\<close>

theorem Config_Validate_first_invalid:
  assumes "Type c \<noteq> []" and "Source c \<noteq> []"
  shows
    "(k < length (elems (Filters c))
        \<and> FilterConfig_Validate (elems (Filters c) ! k) = Some e
        \<and> (\<forall>j<k. FilterConfig_Validate (elems (Filters c) ! j) = None)
      \<longrightarrow> fst (Config_Validate rand c)
            = Some (WrapError (''filter['' @ itoa k @ '']: '' @ Error e) e))
   \<and> ((\<forall>f\<in>set (elems (Filters c)). FilterConfig_Validate f = None)
        \<and> k < length (elems (MergeColumns c))
        \<and> fst (MergeConfig_Validate (elems (MergeColumns c) ! k)) = Some e
        \<and> (\<forall>j<k. fst (MergeConfig_Validate (elems (MergeColumns c) ! j)) = None)
      \<longrightarrow> fst (Config_Validate rand c)
            = Some (WrapError (''mergeColumn['' @ itoa k @ '']: '' @ Error e) e))
   \<and> ((\<forall>f\<in>set (elems (Filters c)). FilterConfig_Validate f = None)
        \<and> (\<forall>m\<in>set (elems (MergeColumns c)). fst (MergeConfig_Validate m) = None)
        \<and> k < length (elems (Config.Aggregations c))
        \<and> AggregationConfig_Validate (elems (Config.Aggregations c) ! k) = Some e
        \<and> (\<forall>j<k. AggregationConfig_Validate (elems (Config.Aggregations c) ! j) = None)
      \<longrightarrow> fst (Config_Validate rand c)
            = Some (WrapError (''aggregation['' @ itoa k @ '']: '' @ Error e) e))
   \<and> Filters (snd (Config_Validate rand c)) = Filters c
   \<and> MergeColumns (snd (Config_Validate rand c)) = MergeColumns c
   \<and> Config.Aggregations (snd (Config_Validate rand c)) = Config.Aggregations c"
proof -
  have filters: "fst (Config_Validate rand c)
            = Some (WrapError (''filter['' @ itoa k @ '']: '' @ Error e) e)"
    if "k < length (elems (Filters c))" "FilterConfig_Validate (elems (Filters c) ! k) = Some e"
      "\<forall>j<k. FilterConfig_Validate (elems (Filters c) ! j) = None"
  proof -
    have "range_Validate ''filter'' FilterConfig_Validate 0 (elems (Filters c))
            = Some (Errorf_w (''filter'' @ ''['' @ itoa (0 + k) @ '']: '') e)"
      using that by (rule range_Validate_first)
    with assms show ?thesis
      by (simp add: Config_Validate_def Let_def Errorf_w_def)
  qed
  have merges: "fst (Config_Validate rand c)
            = Some (WrapError (''mergeColumn['' @ itoa k @ '']: '' @ Error e) e)"
    if ok: "\<forall>f\<in>set (elems (Filters c)). FilterConfig_Validate f = None"
      and bad: "k < length (elems (MergeColumns c))"
      "fst (MergeConfig_Validate (elems (MergeColumns c) ! k)) = Some e"
      "\<forall>j<k. fst (MergeConfig_Validate (elems (MergeColumns c) ! j)) = None"
  proof -
    have f: "range_Validate ''filter'' FilterConfig_Validate 0 (elems (Filters c)) = None"
      using ok by (simp add: range_Validate_None_iff)
    have "range_Validate ''mergeColumn'' (\<lambda>mergeColumn. fst (MergeConfig_Validate mergeColumn)) 0
            (elems (MergeColumns c))
            = Some (Errorf_w (''mergeColumn'' @ ''['' @ itoa (0 + k) @ '']: '') e)"
      using bad by (intro range_Validate_first) simp_all
    with assms f show ?thesis
      by (simp add: Config_Validate_def Let_def Errorf_w_def)
  qed
  have aggs: "fst (Config_Validate rand c)
            = Some (WrapError (''aggregation['' @ itoa k @ '']: '' @ Error e) e)"
    if okf: "\<forall>f\<in>set (elems (Filters c)). FilterConfig_Validate f = None"
      and okm: "\<forall>m\<in>set (elems (MergeColumns c)). fst (MergeConfig_Validate m) = None"
      and bad: "k < length (elems (Config.Aggregations c))"
      "AggregationConfig_Validate (elems (Config.Aggregations c) ! k) = Some e"
      "\<forall>j<k. AggregationConfig_Validate (elems (Config.Aggregations c) ! j) = None"
  proof -
    have f: "range_Validate ''filter'' FilterConfig_Validate 0 (elems (Filters c)) = None"
      using okf by (simp add: range_Validate_None_iff)
    have m: "range_Validate ''mergeColumn'' (\<lambda>mergeColumn. fst (MergeConfig_Validate mergeColumn)) 0
            (elems (MergeColumns c)) = None"
      using okm by (simp add: range_Validate_None_iff)
    have "range_Validate ''aggregation'' AggregationConfig_Validate 0 (elems (Config.Aggregations c))
            = Some (Errorf_w (''aggregation'' @ ''['' @ itoa (0 + k) @ '']: '') e)"
      using bad by (rule range_Validate_first)
    with assms f m show ?thesis
      by (simp add: Config_Validate_def Let_def Errorf_w_def)
  qed
  from filters merges aggs Config_Validate_nested_unchanged [of rand c]
  show ?thesis by blast
qed

text \<open>
  At a configuration whose second merge directive has the strategy \<open>"x"\<close>: the error
  starts with \<open>"mergeColumn[1]: "\<close>, the third directive (which has no columns) is not
  reported, and the first directive keeps its blank strategy and result name.
\<close>

theorem Config_Validate_first_invalid_witness:
  "fst (Config_Validate zero_entropy
     \<lparr>Name = ''n'', Description = [], Creator = [], Type = ''csv'', Source = ''data.csv'',
      Filters = Some [\<lparr>FilterConfig.Column = ''age'', Value = ''3'', Operator = ''gt'',
                  LogicalOperator = ''and''\<rparr>],
      MergeColumns =
        Some [\<lparr>FirstColumn = ''a'', SecondColumn = ''b'', Strategy = [], DefaultValues = None,
          ResultColumnName = []\<rparr>,
         \<lparr>FirstColumn = ''a'', SecondColumn = ''b'', Strategy = ''x'', DefaultValues = None,
          ResultColumnName = []\<rparr>,
         \<lparr>FirstColumn = [], SecondColumn = [], Strategy = [], DefaultValues = None,
          ResultColumnName = []\<rparr>],
      Config.Aggregations = None, OutputFormat = []\<rparr>)
   = Some (WrapError
       (''mergeColumn[1]: invalid strategy '' @ quote ''x''
          @ '', strategy must be one of [concat sum first second]'')
       (ErrorString (''invalid strategy '' @ quote ''x''
          @ '', strategy must be one of [concat sum first second]'')))
  \<and> MergeColumns (snd (Config_Validate zero_entropy
     \<lparr>Name = ''n'', Description = [], Creator = [], Type = ''csv'', Source = ''data.csv'',
      Filters = Some [\<lparr>FilterConfig.Column = ''age'', Value = ''3'', Operator = ''gt'',
                  LogicalOperator = ''and''\<rparr>],
      MergeColumns =
        Some [\<lparr>FirstColumn = ''a'', SecondColumn = ''b'', Strategy = [], DefaultValues = None,
          ResultColumnName = []\<rparr>,
         \<lparr>FirstColumn = ''a'', SecondColumn = ''b'', Strategy = ''x'', DefaultValues = None,
          ResultColumnName = []\<rparr>,
         \<lparr>FirstColumn = [], SecondColumn = [], Strategy = [], DefaultValues = None,
          ResultColumnName = []\<rparr>],
      Config.Aggregations = None, OutputFormat = []\<rparr>))
   = Some [\<lparr>FirstColumn = ''a'', SecondColumn = ''b'', Strategy = [], DefaultValues = None,
          ResultColumnName = []\<rparr>,
         \<lparr>FirstColumn = ''a'', SecondColumn = ''b'', Strategy = ''x'', DefaultValues = None,
          ResultColumnName = []\<rparr>,
         \<lparr>FirstColumn = [], SecondColumn = [], Strategy = [], DefaultValues = None,
          ResultColumnName = []\<rparr>]"
proof -
  let ?c = "\<lparr>Name = ''n'', Description = [], Creator = [], Type = ''csv'', Source = ''data.csv'',
      Filters = Some [\<lparr>FilterConfig.Column = ''age'', Value = ''3'', Operator = ''gt'',
                  LogicalOperator = ''and''\<rparr>],
      MergeColumns =
        Some [\<lparr>FirstColumn = ''a'', SecondColumn = ''b'', Strategy = [], DefaultValues = None,
          ResultColumnName = []\<rparr>,
         \<lparr>FirstColumn = ''a'', SecondColumn = ''b'', Strategy = ''x'', DefaultValues = None,
          ResultColumnName = []\<rparr>,
         \<lparr>FirstColumn = [], SecondColumn = [], Strategy = [], DefaultValues = None,
          ResultColumnName = []\<rparr>],
      Config.Aggregations = None, OutputFormat = []\<rparr>"
  let ?e = "ErrorString (''invalid strategy '' @ quote ''x''
          @ '', strategy must be one of [concat sum first second]'')"
  have ty: "Type ?c \<noteq> []" and src: "Source ?c \<noteq> []" by simp_all
  have okf: "\<forall>f\<in>set (elems (Filters ?c)). FilterConfig_Validate f = None"
    by (simp add: FilterConfig_Validate_def Contains_def validateOperators_def
        validateLogicalOperators_def)
  have k: "(1::nat) < length (elems (MergeColumns ?c))" by simp
  have bad: "fst (MergeConfig_Validate (elems (MergeColumns ?c) ! 1)) = Some ?e"
    by (simp add: MergeConfig_Validate_def Let_def Contains_def validateStrategies_def fmt_v_def)
  have before: "\<forall>j<1. fst (MergeConfig_Validate (elems (MergeColumns ?c) ! j)) = None"
    by (simp add: MergeConfig_Validate_def Let_def Contains_def validateStrategies_def)
  from Config_Validate_first_invalid [OF ty src, of 1 ?e zero_entropy] okf k bad before
  show ?thesis by (simp add: quote_def digits_def)
qed

text \<open>
  Claim C5 as the specification states it, for every configuration with an invalid
  nested entry, fails where the type is blank: the first filter is invalid (its column
  is blank), and \<open>Validate()\<close> returns the error of the type, not the wrapped error of
  the filter.
\<close>

theorem Config_Validate_first_invalid_counterexample:
  "FilterConfig_Validate \<lparr>FilterConfig.Column = [], Value = ''3'', Operator = ''gt'',
       LogicalOperator = ''and''\<rparr>
     = Some (ErrorString ''column is required'')
   \<and> fst (Config_Validate zero_entropy
       \<lparr>Name = ''n'', Description = [], Creator = [], Type = [], Source = ''data.csv'',
        Filters = Some [\<lparr>FilterConfig.Column = [], Value = ''3'', Operator = ''gt'',
                    LogicalOperator = ''and''\<rparr>],
        MergeColumns = None, Config.Aggregations = None, OutputFormat = []\<rparr>)
     = Some (ErrorString ''type is required, valid values are: csv, googlesheets'')
   \<and> fst (Config_Validate zero_entropy
       \<lparr>Name = ''n'', Description = [], Creator = [], Type = [], Source = ''data.csv'',
        Filters = Some [\<lparr>FilterConfig.Column = [], Value = ''3'', Operator = ''gt'',
                    LogicalOperator = ''and''\<rparr>],
        MergeColumns = None, Config.Aggregations = None, OutputFormat = []\<rparr>)
     \<noteq> Some (Errorf_w ''filter[0]: '' (ErrorString ''column is required''))"
  by (simp add: FilterConfig_Validate_def Config_Validate_def Let_def Errorf_w_def)

text \<open>
  Claim C6. A filter clause passes \<open>FilterConfig.Validate()\<close> exactly when its column and
  its value are non-empty, its operator is one of eq, neq, gt, gte, lt, lte and its
  logical operator is one of and, or; and \<open>Config.Validate()\<close> fails for every
  configuration whose last filter clause has a logical operator outside and, or.
\<close>

theorem FilterConfig_Validate_iff:
  "(FilterConfig_Validate fc = None \<longleftrightarrow>
      FilterConfig.Column fc \<noteq> [] \<and> Value fc \<noteq> []
      \<and> Operator fc \<in> {''eq'', ''neq'', ''gt'', ''gte'', ''lt'', ''lte''}
      \<and> LogicalOperator fc \<in> {''and'', ''or''})
   \<and> (elems (Filters c) \<noteq> [] \<and> LogicalOperator (last (elems (Filters c))) \<notin> {''and'', ''or''}
        \<longrightarrow> fst (Config_Validate rand c) \<noteq> None)"
proof
  show "FilterConfig_Validate fc = None \<longleftrightarrow>
      FilterConfig.Column fc \<noteq> [] \<and> Value fc \<noteq> []
      \<and> Operator fc \<in> {''eq'', ''neq'', ''gt'', ''gte'', ''lt'', ''lte''}
      \<and> LogicalOperator fc \<in> {''and'', ''or''}"
    by (simp add: FilterConfig_Validate_def Contains_def validateOperators_def
        validateLogicalOperators_def)
next
  show "elems (Filters c) \<noteq> [] \<and> LogicalOperator (last (elems (Filters c))) \<notin> {''and'', ''or''}
        \<longrightarrow> fst (Config_Validate rand c) \<noteq> None"
  proof
    assume a: "elems (Filters c) \<noteq> [] \<and> LogicalOperator (last (elems (Filters c))) \<notin> {''and'', ''or''}"
    then have "last (elems (Filters c)) \<in> set (elems (Filters c))" by simp
    moreover from a have "FilterConfig_Validate (last (elems (Filters c))) \<noteq> None"
      by (simp add: FilterConfig_Validate_def Contains_def validateLogicalOperators_def)
    ultimately have "range_Validate ''filter'' FilterConfig_Validate 0 (elems (Filters c)) \<noteq> None"
      by (auto simp: range_Validate_None_iff)
    then show "fst (Config_Validate rand c) \<noteq> None"
      by (auto simp: Config_Validate_def Let_def split: option.splits)
  qed
qed

theorem FilterConfig_Validate_iff_witness:
  "elems (Filters \<lparr>Name = ''n'', Description = [], Creator = [], Type = ''csv'', Source = ''data.csv'',
       Filters = Some [\<lparr>FilterConfig.Column = ''age'', Value = ''3'', Operator = ''gt'',
                   LogicalOperator = []\<rparr>],
       MergeColumns = None, Config.Aggregations = None, OutputFormat = ''csv''\<rparr>) \<noteq> []
   \<and> fst (Config_Validate zero_entropy
       \<lparr>Name = ''n'', Description = [], Creator = [], Type = ''csv'', Source = ''data.csv'',
       Filters = Some [\<lparr>FilterConfig.Column = ''age'', Value = ''3'', Operator = ''gt'',
                   LogicalOperator = []\<rparr>],
       MergeColumns = None, Config.Aggregations = None, OutputFormat = ''csv''\<rparr>) \<noteq> None"
  using FilterConfig_Validate_iff [of
      "\<lparr>FilterConfig.Column = ''age'', Value = ''3'', Operator = ''gt'', LogicalOperator = []\<rparr>"
      "\<lparr>Name = ''n'', Description = [], Creator = [], Type = ''csv'', Source = ''data.csv'',
       Filters = Some [\<lparr>FilterConfig.Column = ''age'', Value = ''3'', Operator = ''gt'',
                   LogicalOperator = []\<rparr>],
       MergeColumns = None, Config.Aggregations = None, OutputFormat = ''csv''\<rparr>" zero_entropy]
  by simp

text \<open>
  Claim C8. Whenever \<open>Config.Validate()\<close> returns success the configuration has a
  non-empty name and a non-empty output format: the name it had, or, when the name
  was blank, \<open>"UntitledConfig_"\<close> and the random identifier
  \<open>utils.RandomString(10)\<close>; the output format it had, or \<open>"csv"\<close> when it was blank.
  A blank type or a blank source makes \<open>Validate()\<close> fail. The random identifier has
  20 characters: for each of the 10 bytes read from the entropy source, in their
  order, the hexadecimal digit of its high four bits and then that of its low four
  bits; so two identifiers are equal exactly when the 10 bytes read are equal.
\<close>

theorem Config_Validate_success:
  "(fst (Config_Validate rand c) = None \<longrightarrow>
      Name (snd (Config_Validate rand c)) \<noteq> []
      \<and> OutputFormat (snd (Config_Validate rand c)) \<noteq> []
      \<and> Name (snd (Config_Validate rand c))
          = (if Name c = [] then ''UntitledConfig_'' @ RandomString rand 10 else Name c)
      \<and> OutputFormat (snd (Config_Validate rand c))
          = (if OutputFormat c = [] then ''csv'' else OutputFormat c))
   \<and> (Type c = [] \<or> Source c = [] \<longrightarrow> fst (Config_Validate rand c) \<noteq> None)
   \<and> length (RandomString rand 10) = 20
   \<and> (\<forall>i<10. RandomString rand 10 ! (2 * i)
                 = ''0123456789abcdef'' ! unat (drop_bit 4 (rand i))
             \<and> RandomString rand 10 ! (2 * i + 1)
                 = ''0123456789abcdef'' ! unat (rand i AND 0x0f))
   \<and> (RandomString rand 10 = RandomString rand' 10 \<longleftrightarrow> (\<forall>i<10. rand i = rand' i))"
proof -
  have validate: "(fst (Config_Validate rand c) = None \<longrightarrow>
      Name (snd (Config_Validate rand c)) \<noteq> []
      \<and> OutputFormat (snd (Config_Validate rand c)) \<noteq> []
      \<and> Name (snd (Config_Validate rand c))
          = (if Name c = [] then ''UntitledConfig_'' @ RandomString rand 10 else Name c)
      \<and> OutputFormat (snd (Config_Validate rand c))
          = (if OutputFormat c = [] then ''csv'' else OutputFormat c))
   \<and> (Type c = [] \<or> Source c = [] \<longrightarrow> fst (Config_Validate rand c) \<noteq> None)"
    by (auto simp: Config_Validate_def Let_def split: option.splits)
  have len: "length (RandomString rand 10) = 20"
    by (simp add: RandomString_length)
  have digits: "\<forall>i<10. RandomString rand 10 ! (2 * i)
                 = ''0123456789abcdef'' ! unat (drop_bit 4 (rand i))
             \<and> RandomString rand 10 ! (2 * i + 1)
                 = ''0123456789abcdef'' ! unat (rand i AND 0x0f)"
    using RandomString_nth [of _ 10 rand] by blast
  from validate len digits RandomString_eq_iff [of rand 10 rand'] show ?thesis
    by (intro conjI) blast+
qed


text \<open>
  With the bytes \<open>de ad be ef 01 23 45 67 89 ab\<close> from the entropy source the blank name
  becomes \<open>UntitledConfig_deadbeef0123456789ab\<close>; with ten zero bytes the identifier
  is another one.
\<close>

theorem Config_Validate_success_witness:
  "fst (Config_Validate (entropy_of [0xde, 0xad, 0xbe, 0xef, 0x01, 0x23, 0x45, 0x67, 0x89, 0xab])
       \<lparr>Name = [], Description = [], Creator = [], Type = ''csv'', Source = ''data.csv'',
        Filters = None, MergeColumns = None, Config.Aggregations = None, OutputFormat = []\<rparr>) = None
   \<and> Name (snd (Config_Validate
         (entropy_of [0xde, 0xad, 0xbe, 0xef, 0x01, 0x23, 0x45, 0x67, 0x89, 0xab])
       \<lparr>Name = [], Description = [], Creator = [], Type = ''csv'', Source = ''data.csv'',
        Filters = None, MergeColumns = None, Config.Aggregations = None, OutputFormat = []\<rparr>))
       = ''UntitledConfig_deadbeef0123456789ab''
   \<and> OutputFormat (snd (Config_Validate
         (entropy_of [0xde, 0xad, 0xbe, 0xef, 0x01, 0x23, 0x45, 0x67, 0x89, 0xab])
       \<lparr>Name = [], Description = [], Creator = [], Type = ''csv'', Source = ''data.csv'',
        Filters = None, MergeColumns = None, Config.Aggregations = None, OutputFormat = []\<rparr>))
       = ''csv''
   \<and> fst (Config_Validate zero_entropy
       \<lparr>Name = [], Description = [], Creator = [], Type = [], Source = ''data.csv'',
        Filters = None, MergeColumns = None, Config.Aggregations = None, OutputFormat = []\<rparr>)
       \<noteq> None
   \<and> RandomString zero_entropy 10 = ''00000000000000000000''
   \<and> RandomString (entropy_of [0xde, 0xad, 0xbe, 0xef, 0x01, 0x23, 0x45, 0x67, 0x89, 0xab]) 10
       \<noteq> RandomString zero_entropy 10"
proof -
  let ?r = "entropy_of [0xde, 0xad, 0xbe, 0xef, 0x01, 0x23, 0x45, 0x67, 0x89, 0xab]"
  let ?c = "\<lparr>Name = [], Description = [], Creator = [], Type = ''csv'', Source = ''data.csv'',
       Filters = None, MergeColumns = None, Config.Aggregations = None, OutputFormat = []\<rparr>"
  let ?d = "\<lparr>Name = [], Description = [], Creator = [], Type = [], Source = ''data.csv'',
       Filters = None, MergeColumns = None, Config.Aggregations = None, OutputFormat = []\<rparr>"
  have ok: "fst (Config_Validate ?r ?c) = None"
    by (simp add: Config_Validate_def Let_def)
  have rs: "RandomString ?r 10 = ''deadbeef0123456789ab''"
    by (simp add: RandomString_def EncodeToString_def entropy_of_def hextable_def upt_rec)
  have rz: "RandomString zero_entropy 10 = ''00000000000000000000''"
    by (simp add: RandomString_def EncodeToString_def zero_entropy_def hextable_def upt_rec)
  have differ: "\<not> (\<forall>i<10. ?r i = zero_entropy i)"
    by (simp add: entropy_of_def zero_entropy_def) (rule exI [of _ 0], simp)
  show ?thesis
    using ok rs rz differ Config_Validate_success [of ?r ?c zero_entropy]
      Config_Validate_success [of zero_entropy ?d]
    by simp
qed

subsection \<open>Config.ToJSON and Config.FromJSON\<close>

lemma coerce_ascii:
  "\<forall>ch\<in>set s. (of_char ch :: nat) < 0x80 \<Longrightarrow> coerce s = s"
  by (induction s) (simp_all add: DecodeRune_def)

lemma ValidString_ascii:
  "\<forall>ch\<in>set s. (of_char ch :: nat) < 0x80 \<Longrightarrow> ValidString s"
  by (simp add: ValidString_def coerce_ascii)

lemma Unmarshal_string_Marshal:
  "ValidString s \<Longrightarrow> Unmarshal_string ctx (Marshal_string s) old = Inr s"
  by (simp add: Unmarshal_string_def Marshal_string_def ValidString_def)

lemma Unmarshal_elements_map:
  "\<forall>x\<in>set xs. element (enc x) zero = Inr x \<Longrightarrow>
   Unmarshal_elements element zero (map enc xs) [] = Inr xs"
  by (induction xs) simp_all

lemma Unmarshal_slice_Marshal:
  "\<forall>x\<in>set (elems s). element (enc x) zero = Inr x \<Longrightarrow>
   Unmarshal_slice ctx typ element zero (Marshal_slice enc s) None = Inr s"
  by (cases s) (simp_all add: Unmarshal_slice_def Marshal_slice_def Unmarshal_elements_map)

lemma Unmarshal_strings:
  "list_all ValidString (elems s) \<Longrightarrow>
   Unmarshal_slice ctx typ (Unmarshal_string ctx') [] (Marshal_slice Marshal_string s) None
     = Inr s"
  by (rule Unmarshal_slice_Marshal) (simp add: Unmarshal_string_Marshal list_all_iff)

lemma omitted_slice:
  "NilIfEmpty s \<Longrightarrow> length (elems s) = 0 \<Longrightarrow> s = None"
  by (cases s) (simp_all add: NilIfEmpty_def)

lemma Unmarshal_FilterConfig_Marshal:
  "ValidStrings_FilterConfig fc \<Longrightarrow>
   Unmarshal_FilterConfig ctx (Marshal_FilterConfig fc) new_FilterConfig = Inr fc"
  by (simp add: ValidStrings_FilterConfig_def Unmarshal_FilterConfig_def Marshal_FilterConfig_def
      Unmarshal_struct_def FilterConfig_member_def field_named_def store_def new_FilterConfig_def
      Unmarshal_string_Marshal)

lemma Unmarshal_MergeConfig_Marshal:
  assumes "ValidStrings_MergeConfig m" and "NilIfEmpty (DefaultValues m)"
  shows "Unmarshal_MergeConfig ctx (Marshal_MergeConfig m) new_MergeConfig = Inr m"
proof -
  from assms(1) have d: "Unmarshal_slice ctx' ''[]string'' (Unmarshal_string ctx') []
      (Marshal_slice Marshal_string (DefaultValues m)) None = Inr (DefaultValues m)" for ctx'
    by (simp add: ValidStrings_MergeConfig_def Unmarshal_strings)
  from assms(2) have n: "elems (DefaultValues m) = [] \<Longrightarrow> DefaultValues m = None"
    using omitted_slice [of "DefaultValues m"] by simp
  from assms(1) have s: "ValidString (FirstColumn m)" "ValidString (SecondColumn m)"
    "ValidString (Strategy m)" "ValidString (ResultColumnName m)"
    by (simp_all add: ValidStrings_MergeConfig_def)
  show ?thesis
    by (simp add: Unmarshal_MergeConfig_def Marshal_MergeConfig_def
        Unmarshal_struct_def MergeConfig_member_def field_named_def store_def new_MergeConfig_def
        Unmarshal_string_Marshal s d n omitempty_def)
qed

lemma Unmarshal_Aggregation_Marshal:
  "ValidStrings_Aggregation a \<Longrightarrow>
   Unmarshal_Aggregation ctx (Marshal_Aggregation a) new_Aggregation = Inr a"
  by (simp add: ValidStrings_Aggregation_def Unmarshal_Aggregation_def Marshal_Aggregation_def
      Unmarshal_struct_def Aggregation_member_def field_named_def store_def new_Aggregation_def
      Unmarshal_string_Marshal omitempty_def)

lemma Unmarshal_AggregationConfig_Marshal:
  assumes "ValidStrings_AggregationConfig ac"
  shows "Unmarshal_AggregationConfig ctx (Marshal_AggregationConfig ac) new_AggregationConfig
           = Inr ac"
proof -
  from assms have g: "Unmarshal_slice ctx' ''[]string'' (Unmarshal_string ctx') []
      (Marshal_slice Marshal_string (GroupingColumns ac)) None = Inr (GroupingColumns ac)"
    for ctx'
    by (simp add: ValidStrings_AggregationConfig_def Unmarshal_strings)
  from assms have a: "Unmarshal_slice ctx' ''[]entities.Aggregation''
      (Unmarshal_Aggregation ctx') new_Aggregation
      (Marshal_slice Marshal_Aggregation (AggregationConfig.Aggregations ac)) None
      = Inr (AggregationConfig.Aggregations ac)" for ctx'
    by (intro Unmarshal_slice_Marshal)
      (simp add: ValidStrings_AggregationConfig_def list_all_iff Unmarshal_Aggregation_Marshal)
  show ?thesis
    by (simp add: Unmarshal_AggregationConfig_def Marshal_AggregationConfig_def
        Unmarshal_struct_def AggregationConfig_member_def field_named_def store_def
        new_AggregationConfig_def g a)
qed

lemma Unmarshal_Marshal:
  assumes "ValidStrings c" and "NilIfEmpty_Config c"
  shows "Unmarshal (Marshal_Config c) = Inr c"
proof -
  from assms(1) have f: "Unmarshal_slice ctx ''[]entities.FilterConfig''
      (Unmarshal_FilterConfig ctx) new_FilterConfig
      (Marshal_slice Marshal_FilterConfig (Filters c)) None = Inr (Filters c)" for ctx
    by (intro Unmarshal_slice_Marshal)
      (simp add: ValidStrings_def list_all_iff Unmarshal_FilterConfig_Marshal)
  from assms have m: "Unmarshal_slice ctx ''[]entities.MergeConfig''
      (Unmarshal_MergeConfig ctx) new_MergeConfig
      (Marshal_slice Marshal_MergeConfig (MergeColumns c)) None = Inr (MergeColumns c)" for ctx
    by (intro Unmarshal_slice_Marshal)
      (simp add: ValidStrings_def NilIfEmpty_Config_def list_all_iff Unmarshal_MergeConfig_Marshal)
  from assms(1) have a: "Unmarshal_slice ctx ''[]entities.AggregationConfig''
      (Unmarshal_AggregationConfig ctx) new_AggregationConfig
      (Marshal_slice Marshal_AggregationConfig (Config.Aggregations c)) None
      = Inr (Config.Aggregations c)" for ctx
    by (intro Unmarshal_slice_Marshal)
      (simp add: ValidStrings_def list_all_iff Unmarshal_AggregationConfig_Marshal)
  from assms(1) have s: "ValidString (Name c)" "ValidString (Description c)"
    "ValidString (Creator c)" "ValidString (Type c)" "ValidString (Source c)"
    "ValidString (OutputFormat c)"
    by (simp_all add: ValidStrings_def)
  from assms(2) have n: "elems (Filters c) = [] \<Longrightarrow> Filters c = None"
    "elems (MergeColumns c) = [] \<Longrightarrow> MergeColumns c = None"
    "elems (Config.Aggregations c) = [] \<Longrightarrow> Config.Aggregations c = None"
    using omitted_slice [of "Filters c"] omitted_slice [of "MergeColumns c"]
      omitted_slice [of "Config.Aggregations c"]
    by (simp_all add: NilIfEmpty_Config_def)
  show ?thesis
    by (simp add: Unmarshal_def Marshal_Config_def Unmarshal_struct_def Config_member_def
        field_named_def store_def omitempty_def new_Config_def f m a s n Unmarshal_string_Marshal)
qed

lemma Config_Validate_None_iff:
  "fst (Config_Validate rand c) = None \<longleftrightarrow>
     Type c \<noteq> [] \<and> Source c \<noteq> []
     \<and> range_Validate ''filter'' FilterConfig_Validate 0 (elems (Filters c)) = None
     \<and> range_Validate ''mergeColumn'' (\<lambda>mergeColumn. fst (MergeConfig_Validate mergeColumn)) 0
           (elems (MergeColumns c)) = None
     \<and> range_Validate ''aggregation'' AggregationConfig_Validate 0
           (elems (Config.Aggregations c)) = None"
  by (simp add: Config_Validate_def Let_def split: option.splits)

lemma Config_Validate_snd:
  "Type c \<noteq> [] \<Longrightarrow> Source c \<noteq> [] \<Longrightarrow>
   snd (Config_Validate rand c)
     = c\<lparr>Name := (if Name c = [] then ''UntitledConfig_'' @ RandomString rand 10 else Name c),
         OutputFormat := (if OutputFormat c = [] then ''csv'' else OutputFormat c)\<rparr>"
  by (simp add: Config_Validate_def Let_def split: option.splits)

lemma Config_Validate_fixed:
  assumes "fst (Config_Validate rand c) = None" and "Name c \<noteq> []" and "OutputFormat c \<noteq> []"
  shows "Config_Validate rand c = (None, c)"
proof -
  from assms(1) have "Type c \<noteq> []" "Source c \<noteq> []"
    by (simp_all add: Config_Validate_None_iff)
  then have "snd (Config_Validate rand c) = c"
    using assms(2,3) by (simp add: Config_Validate_snd)
  with assms(1) show ?thesis by (simp add: prod_eq_iff)
qed

lemma Config_Validate_again:
  assumes "Config_Validate rand c0 = (None, c)"
  shows "Config_Validate rand' c = (None, c)"
proof -
  from assms have ok: "fst (Config_Validate rand c0) = None"
    and c: "c = snd (Config_Validate rand c0)" by simp_all
  from ok have ts: "Type c0 \<noteq> []" "Source c0 \<noteq> []"
    by (simp_all add: Config_Validate_None_iff)
  have c': "c = c0\<lparr>Name := (if Name c0 = [] then ''UntitledConfig_'' @ RandomString rand 10 else Name c0),
         OutputFormat := (if OutputFormat c0 = [] then ''csv'' else OutputFormat c0)\<rparr>"
    unfolding c by (rule Config_Validate_snd [OF ts])
  have "fst (Config_Validate rand' c) = None"
    using ok unfolding Config_Validate_None_iff by (simp add: c')
  moreover have "Name c \<noteq> []" "OutputFormat c \<noteq> []" by (simp_all add: c')
  ultimately show ?thesis by (rule Config_Validate_fixed)
qed

text \<open>
  The decoder at documents that \<open>ToJSON\<close> does not write: names that differ from the
  tags in case, a member that names no field and a \<open>null\<close>; values of the wrong kind,
  with the error that \<open>FromJSON\<close> returns; a member that comes twice; an empty array
  and a \<open>null\<close> for a slice; and what the encoder writes for nil and for empty slices
  that have no \<open>omitempty\<close>.
\<close>

lemma Unmarshal_folds_names:
  "Unmarshal (JObject [(''NAME'', JString ''x''),
                       ([CHR 0xC5, CHR 0xBF] @ ''ource'', JString ''y''),
                       (''nam'', JString ''z''),
                       (''Type'', JNull)])
     = Inr (new_Config\<lparr>Name := ''x'', Source := ''y''\<rparr>)"
proof -
  have c: "coerce ''x'' = ''x''" "coerce ''y'' = ''y''"
    by (rule coerce_ascii, simp)+
  show ?thesis
    by (simp add: Unmarshal_def Unmarshal_struct_def Config_member_def field_named_def store_def
        Unmarshal_string_def upper_def c del: coerce.simps(2))
qed

lemma FromJSON_type_error:
  "FromJSON rand (JObject [(''filters'', JArray [JObject [(''column'', JNumber ''3'')]])])
     = Inl (WrapError
         (''failed to unmarshal JSON to Config: json: cannot unmarshal number into ''
            @ ''Go struct field FilterConfig.filters.column of type string'')
         (UnmarshalTypeError ''number'' ''string'' ''FilterConfig.filters.column''))"
  and "FromJSON rand (JObject [(''filters'', JString ''x'')])
     = Inl (WrapError
         (''failed to unmarshal JSON to Config: json: cannot unmarshal string into ''
            @ ''Go struct field Config.filters of type []entities.FilterConfig'')
         (UnmarshalTypeError ''string'' ''[]entities.FilterConfig'' ''Config.filters''))"
  and "FromJSON rand (JArray [])
     = Inl (WrapError
         (''failed to unmarshal JSON to Config: json: cannot unmarshal array into ''
            @ ''Go value of type entities.Config'')
         (UnmarshalTypeError ''array'' ''entities.Config'' []))"
  by (simp_all add: FromJSON_def Unmarshal_def Unmarshal_struct_def Config_member_def
      field_named_def store_def Unmarshal_slice_def Unmarshal_FilterConfig_def
      FilterConfig_member_def Unmarshal_string_def TypeError_def kind_def context_field_def
      Errorf_w_def new_Config_def new_FilterConfig_def)

lemma Unmarshal_repeated_member:
  "Unmarshal (JObject
      [(''filters'', JArray [JObject [(''column'', JString ''a''), (''value'', JString ''1'')],
                            JObject [(''column'', JString ''c'')]]),
       (''filters'', JArray [JObject [(''column'', JString ''b'')]])])
     = Inr (new_Config\<lparr>Filters := Some [new_FilterConfig\<lparr>FilterConfig.Column := ''b'',
                                                           Value := ''1''\<rparr>]\<rparr>)"
proof -
  have c: "coerce ''a'' = ''a''" "coerce ''b'' = ''b''" "coerce ''c'' = ''c''" "coerce ''1'' = ''1''"
    by (rule coerce_ascii, simp)+
  show ?thesis
    by (simp add: Unmarshal_def Unmarshal_struct_def Config_member_def field_named_def store_def
        Unmarshal_slice_def Unmarshal_FilterConfig_def FilterConfig_member_def
        Unmarshal_string_def new_Config_def new_FilterConfig_def c del: coerce.simps(2))
qed

lemma Unmarshal_empty_array:
  "Unmarshal (JObject [(''filters'', JArray []), (''mergeColumns'', JNull)])
     = Inr (new_Config\<lparr>Filters := Some []\<rparr>)"
  and "Marshal_Config (new_Config\<lparr>Filters := Some []\<rparr>) = Marshal_Config new_Config"
  by (simp_all add: Unmarshal_def Unmarshal_struct_def Config_member_def field_named_def
      store_def Unmarshal_slice_def new_Config_def Marshal_Config_def omitempty_def)

lemma Marshal_nil_slices:
  "Marshal_AggregationConfig new_AggregationConfig
     = JObject [(''groupingColumns'', JNull), (''aggregations'', JNull)]"
  and "Marshal_AggregationConfig
         \<lparr>GroupingColumns = Some [], AggregationConfig.Aggregations = Some []\<rparr>
     = JObject [(''groupingColumns'', JArray []), (''aggregations'', JArray [])]"
  by (simp_all add: Marshal_AggregationConfig_def Marshal_slice_def new_AggregationConfig_def)

text \<open>
  Claim C3, as the code has it. For every configuration on which \<open>Validate()\<close> has
  succeeded, whose strings are all well-formed UTF-8 and whose slices with the option
  \<open>omitempty\<close> are nil when they are empty, \<open>ToJSON\<close> succeeds, parsing its result
  back with \<open>FromJSON\<close> into a new \<open>Config\<close> succeeds and yields a configuration equal
  to the validated one in every field (strings byte for byte, slices nil where they
  were nil and with the same elements otherwise), and the validation inside
  \<open>FromJSON\<close> changes no field: validating the validated configuration again returns
  nil and leaves it as it is.
\<close>

theorem ToJSON_FromJSON_roundtrip:
  assumes "Config_Validate rand c0 = (None, c)" and "ValidStrings c" and "NilIfEmpty_Config c"
  shows "ToJSON c = Inr (Marshal_Config c)
       \<and> FromJSON rand' (Marshal_Config c) = Inr c
       \<and> Config_Validate rand' c = (None, c)"
proof -
  have again: "Config_Validate rand' c = (None, c)"
    using assms(1) by (rule Config_Validate_again)
  have "Unmarshal (Marshal_Config c) = Inr c"
    using assms(2,3) by (rule Unmarshal_Marshal)
  with again have "FromJSON rand' (Marshal_Config c) = Inr c"
    by (simp add: FromJSON_def)
  with again show ?thesis
    by (simp add: ToJSON_def MarshalIndent_def)
qed


text \<open>
  At a configuration with a filter, a merge directive with default values, an
  aggregation directive, a blank name and a blank output format, after its validation.
\<close>

theorem ToJSON_FromJSON_roundtrip_witness:
  "FromJSON zero_entropy (Marshal_Config
     \<lparr>Name = ''UntitledConfig_00000000000000000000'', Description = ''d'', Creator = [],
      Type = ''csv'', Source = ''data.csv'',
      Filters = Some [\<lparr>FilterConfig.Column = ''age'', Value = ''3'', Operator = ''gt'',
                  LogicalOperator = ''and''\<rparr>],
      MergeColumns = Some [\<lparr>FirstColumn = ''a'', SecondColumn = ''b'', Strategy = [],
                       DefaultValues = Some [''x'', ''y''], ResultColumnName = []\<rparr>],
      Config.Aggregations = Some [\<lparr>GroupingColumns = Some [''region''],
          AggregationConfig.Aggregations =
            Some [\<lparr>Aggregation.Column = ''amount'', AggregateMethod = ''sum'',
                   ResultName = []\<rparr>]\<rparr>],
      OutputFormat = ''csv''\<rparr>)
   = Inr \<lparr>Name = ''UntitledConfig_00000000000000000000'', Description = ''d'', Creator = [],
      Type = ''csv'', Source = ''data.csv'',
      Filters = Some [\<lparr>FilterConfig.Column = ''age'', Value = ''3'', Operator = ''gt'',
                  LogicalOperator = ''and''\<rparr>],
      MergeColumns = Some [\<lparr>FirstColumn = ''a'', SecondColumn = ''b'', Strategy = [],
                       DefaultValues = Some [''x'', ''y''], ResultColumnName = []\<rparr>],
      Config.Aggregations = Some [\<lparr>GroupingColumns = Some [''region''],
          AggregationConfig.Aggregations =
            Some [\<lparr>Aggregation.Column = ''amount'', AggregateMethod = ''sum'',
                   ResultName = []\<rparr>]\<rparr>],
      OutputFormat = ''csv''\<rparr>"
proof -
  let ?c0 = "\<lparr>Name = [], Description = ''d'', Creator = [],
      Type = ''csv'', Source = ''data.csv'',
      Filters = Some [\<lparr>FilterConfig.Column = ''age'', Value = ''3'', Operator = ''gt'',
                  LogicalOperator = ''and''\<rparr>],
      MergeColumns = Some [\<lparr>FirstColumn = ''a'', SecondColumn = ''b'', Strategy = [],
                       DefaultValues = Some [''x'', ''y''], ResultColumnName = []\<rparr>],
      Config.Aggregations = Some [\<lparr>GroupingColumns = Some [''region''],
          AggregationConfig.Aggregations =
            Some [\<lparr>Aggregation.Column = ''amount'', AggregateMethod = ''sum'',
                   ResultName = []\<rparr>]\<rparr>],
      OutputFormat = []\<rparr>"
  let ?c = "\<lparr>Name = ''UntitledConfig_00000000000000000000'', Description = ''d'', Creator = [],
      Type = ''csv'', Source = ''data.csv'',
      Filters = Some [\<lparr>FilterConfig.Column = ''age'', Value = ''3'', Operator = ''gt'',
                  LogicalOperator = ''and''\<rparr>],
      MergeColumns = Some [\<lparr>FirstColumn = ''a'', SecondColumn = ''b'', Strategy = [],
                       DefaultValues = Some [''x'', ''y''], ResultColumnName = []\<rparr>],
      Config.Aggregations = Some [\<lparr>GroupingColumns = Some [''region''],
          AggregationConfig.Aggregations =
            Some [\<lparr>Aggregation.Column = ''amount'', AggregateMethod = ''sum'',
                   ResultName = []\<rparr>]\<rparr>],
      OutputFormat = ''csv''\<rparr>"
  have rs: "RandomString zero_entropy 10 = ''00000000000000000000''"
    by (simp add: RandomString_def EncodeToString_def zero_entropy_def hextable_def upt_rec)
  have f: "FilterConfig_Validate \<lparr>FilterConfig.Column = ''age'', Value = ''3'', Operator = ''gt'',
                  LogicalOperator = ''and''\<rparr> = None"
    by (simp add: FilterConfig_Validate_def Contains_def validateOperators_def
        validateLogicalOperators_def)
  have m: "fst (MergeConfig_Validate \<lparr>FirstColumn = ''a'', SecondColumn = ''b'', Strategy = [],
                       DefaultValues = Some [''x'', ''y''], ResultColumnName = []\<rparr>) = None"
    by (simp add: MergeConfig_Validate_def Let_def Contains_def validateStrategies_def)
  have a: "AggregationConfig_Validate \<lparr>GroupingColumns = Some [''region''],
          AggregationConfig.Aggregations =
            Some [\<lparr>Aggregation.Column = ''amount'', AggregateMethod = ''sum'',
                   ResultName = []\<rparr>]\<rparr>
        = None"
    by (simp add: AggregationConfig_Validate_def Aggregation_Validate_def Let_def Contains_def
        validateAggregateMethods_def)
  have v: "Config_Validate zero_entropy ?c0 = (None, ?c)"
    by (simp add: Config_Validate_def Let_def rs f m a)
  have s: "ValidStrings ?c"
    by (simp add: ValidStrings_def ValidStrings_FilterConfig_def ValidStrings_MergeConfig_def
        ValidStrings_AggregationConfig_def ValidStrings_Aggregation_def ValidString_ascii)
  have n: "NilIfEmpty_Config ?c"
    by (simp add: NilIfEmpty_Config_def NilIfEmpty_def)
  from ToJSON_FromJSON_roundtrip [OF v s n, of zero_entropy] show ?thesis by simp
qed


text \<open>
  Claim C3 as the specification states it, for every validated configuration, fails in
  two ways. A name that is not UTF-8: the byte \<open>0xFF\<close> passes \<open>Validate()\<close>, \<open>ToJSON\<close>
  writes the replacement rune U+FFFD for it, and \<open>FromJSON\<close> reads the three bytes
  \<open>EF BF BD\<close> back. A slice that is empty and not nil: \<open>Filters\<close> of length 0 passes
  \<open>Validate()\<close>, \<open>ToJSON\<close> leaves the member out, and \<open>FromJSON\<close> leaves the field
  nil.
\<close>

theorem ToJSON_FromJSON_roundtrip_counterexample:
  "Config_Validate zero_entropy
     \<lparr>Name = [CHR 0xFF], Description = [], Creator = [], Type = ''csv'', Source = ''data.csv'',
      Filters = None, MergeColumns = None, Config.Aggregations = None, OutputFormat = []\<rparr>
   = (None,
     \<lparr>Name = [CHR 0xFF], Description = [], Creator = [], Type = ''csv'', Source = ''data.csv'',
      Filters = None, MergeColumns = None, Config.Aggregations = None, OutputFormat = ''csv''\<rparr>)
   \<and> ToJSON
     \<lparr>Name = [CHR 0xFF], Description = [], Creator = [], Type = ''csv'', Source = ''data.csv'',
      Filters = None, MergeColumns = None, Config.Aggregations = None, OutputFormat = ''csv''\<rparr>
     = Inr (JObject [(''name'', JString [CHR 0xEF, CHR 0xBF, CHR 0xBD]),
                     (''description'', JString []), (''creator'', JString []),
                     (''type'', JString ''csv''), (''source'', JString ''data.csv''),
                     (''outputFormat'', JString ''csv'')])
   \<and> FromJSON zero_entropy
        (JObject [(''name'', JString [CHR 0xEF, CHR 0xBF, CHR 0xBD]),
                     (''description'', JString []), (''creator'', JString []),
                     (''type'', JString ''csv''), (''source'', JString ''data.csv''),
                     (''outputFormat'', JString ''csv'')])
     = Inr \<lparr>Name = [CHR 0xEF, CHR 0xBF, CHR 0xBD], Description = [], Creator = [],
            Type = ''csv'', Source = ''data.csv'',
            Filters = None, MergeColumns = None, Config.Aggregations = None,
            OutputFormat = ''csv''\<rparr>
   \<and> [CHR 0xEF, CHR 0xBF, CHR 0xBD] \<noteq> [CHR 0xFF]
   \<and> Config_Validate zero_entropy
     \<lparr>Name = ''n'', Description = [], Creator = [], Type = ''csv'', Source = ''data.csv'',
      Filters = Some [], MergeColumns = None, Config.Aggregations = None, OutputFormat = ''csv''\<rparr>
   = (None,
     \<lparr>Name = ''n'', Description = [], Creator = [], Type = ''csv'', Source = ''data.csv'',
      Filters = Some [], MergeColumns = None, Config.Aggregations = None, OutputFormat = ''csv''\<rparr>)
   \<and> ToJSON
     \<lparr>Name = ''n'', Description = [], Creator = [], Type = ''csv'', Source = ''data.csv'',
      Filters = Some [], MergeColumns = None, Config.Aggregations = None, OutputFormat = ''csv''\<rparr>
     = Inr (JObject [(''name'', JString ''n''),
                     (''description'', JString []), (''creator'', JString []),
                     (''type'', JString ''csv''), (''source'', JString ''data.csv''),
                     (''outputFormat'', JString ''csv'')])
   \<and> FromJSON zero_entropy
        (JObject [(''name'', JString ''n''),
                     (''description'', JString []), (''creator'', JString []),
                     (''type'', JString ''csv''), (''source'', JString ''data.csv''),
                     (''outputFormat'', JString ''csv'')])
     = Inr \<lparr>Name = ''n'', Description = [], Creator = [], Type = ''csv'', Source = ''data.csv'',
            Filters = None, MergeColumns = None, Config.Aggregations = None,
            OutputFormat = ''csv''\<rparr>
   \<and> Filters \<lparr>Name = ''n'', Description = [], Creator = [], Type = ''csv'',
            Source = ''data.csv'', Filters = None, MergeColumns = None,
            Config.Aggregations = None, OutputFormat = ''csv''\<rparr>
     \<noteq> Some []"
proof -
  have c1: "coerce [CHR 0xFF] = [CHR 0xEF, CHR 0xBF, CHR 0xBD]"
    by (simp add: DecodeRune_def first_def RuneError_def)
  have c2: "coerce [CHR 0xEF, CHR 0xBF, CHR 0xBD] = [CHR 0xEF, CHR 0xBF, CHR 0xBD]"
    by (simp add: DecodeRune_def first_def between_def)
  have c3: "coerce ''csv'' = ''csv''" "coerce ''data.csv'' = ''data.csv''" "coerce ''n'' = ''n''"
    by (rule coerce_ascii, simp)+
  have v1: "Config_Validate zero_entropy
     \<lparr>Name = [CHR 0xFF], Description = [], Creator = [], Type = ''csv'', Source = ''data.csv'',
      Filters = None, MergeColumns = None, Config.Aggregations = None, OutputFormat = []\<rparr>
   = (None,
     \<lparr>Name = [CHR 0xFF], Description = [], Creator = [], Type = ''csv'', Source = ''data.csv'',
      Filters = None, MergeColumns = None, Config.Aggregations = None, OutputFormat = ''csv''\<rparr>)"
    by (simp add: Config_Validate_def Let_def)
  have t1: "ToJSON
     \<lparr>Name = [CHR 0xFF], Description = [], Creator = [], Type = ''csv'', Source = ''data.csv'',
      Filters = None, MergeColumns = None, Config.Aggregations = None, OutputFormat = ''csv''\<rparr>
     = Inr (JObject [(''name'', JString [CHR 0xEF, CHR 0xBF, CHR 0xBD]),
                     (''description'', JString []), (''creator'', JString []),
                     (''type'', JString ''csv''), (''source'', JString ''data.csv''),
                     (''outputFormat'', JString ''csv'')])"
    by (simp add: ToJSON_def MarshalIndent_def Marshal_Config_def Marshal_string_def
        omitempty_def c1 c3 del: coerce.simps(2))
  have u1: "Unmarshal
        (JObject [(''name'', JString [CHR 0xEF, CHR 0xBF, CHR 0xBD]),
                     (''description'', JString []), (''creator'', JString []),
                     (''type'', JString ''csv''), (''source'', JString ''data.csv''),
                     (''outputFormat'', JString ''csv'')])
     = Inr \<lparr>Name = [CHR 0xEF, CHR 0xBF, CHR 0xBD], Description = [], Creator = [],
            Type = ''csv'', Source = ''data.csv'',
            Filters = None, MergeColumns = None, Config.Aggregations = None,
            OutputFormat = ''csv''\<rparr>"
    by (simp add: Unmarshal_def Unmarshal_struct_def Config_member_def field_named_def store_def
        new_Config_def Unmarshal_string_def c2 c3 del: coerce.simps(2))
  have f1: "FromJSON zero_entropy
        (JObject [(''name'', JString [CHR 0xEF, CHR 0xBF, CHR 0xBD]),
                     (''description'', JString []), (''creator'', JString []),
                     (''type'', JString ''csv''), (''source'', JString ''data.csv''),
                     (''outputFormat'', JString ''csv'')])
     = Inr \<lparr>Name = [CHR 0xEF, CHR 0xBF, CHR 0xBD], Description = [], Creator = [],
            Type = ''csv'', Source = ''data.csv'',
            Filters = None, MergeColumns = None, Config.Aggregations = None,
            OutputFormat = ''csv''\<rparr>"
    unfolding FromJSON_def u1 by (simp add: Config_Validate_def Let_def)
  have v2: "Config_Validate zero_entropy
     \<lparr>Name = ''n'', Description = [], Creator = [], Type = ''csv'', Source = ''data.csv'',
      Filters = Some [], MergeColumns = None, Config.Aggregations = None, OutputFormat = ''csv''\<rparr>
   = (None,
     \<lparr>Name = ''n'', Description = [], Creator = [], Type = ''csv'', Source = ''data.csv'',
      Filters = Some [], MergeColumns = None, Config.Aggregations = None, OutputFormat = ''csv''\<rparr>)"
    by (simp add: Config_Validate_def Let_def)
  have t2: "ToJSON
     \<lparr>Name = ''n'', Description = [], Creator = [], Type = ''csv'', Source = ''data.csv'',
      Filters = Some [], MergeColumns = None, Config.Aggregations = None, OutputFormat = ''csv''\<rparr>
     = Inr (JObject [(''name'', JString ''n''),
                     (''description'', JString []), (''creator'', JString []),
                     (''type'', JString ''csv''), (''source'', JString ''data.csv''),
                     (''outputFormat'', JString ''csv'')])"
    by (simp add: ToJSON_def MarshalIndent_def Marshal_Config_def Marshal_string_def
        omitempty_def c3 del: coerce.simps(2))
  have u2: "Unmarshal
        (JObject [(''name'', JString ''n''),
                     (''description'', JString []), (''creator'', JString []),
                     (''type'', JString ''csv''), (''source'', JString ''data.csv''),
                     (''outputFormat'', JString ''csv'')])
     = Inr \<lparr>Name = ''n'', Description = [], Creator = [], Type = ''csv'', Source = ''data.csv'',
            Filters = None, MergeColumns = None, Config.Aggregations = None,
            OutputFormat = ''csv''\<rparr>"
    by (simp add: Unmarshal_def Unmarshal_struct_def Config_member_def field_named_def store_def
        new_Config_def Unmarshal_string_def c3 del: coerce.simps(2))
  have f2: "FromJSON zero_entropy
        (JObject [(''name'', JString ''n''),
                     (''description'', JString []), (''creator'', JString []),
                     (''type'', JString ''csv''), (''source'', JString ''data.csv''),
                     (''outputFormat'', JString ''csv'')])
     = Inr \<lparr>Name = ''n'', Description = [], Creator = [], Type = ''csv'', Source = ''data.csv'',
            Filters = None, MergeColumns = None, Config.Aggregations = None,
            OutputFormat = ''csv''\<rparr>"
    unfolding FromJSON_def u2 by (simp add: Config_Validate_def Let_def)
  from v1 t1 f1 v2 t2 f2 show ?thesis by simp
qed

subsection \<open>AuthenticationError\<close>

text \<open>
  Claim C7. An \<open>AuthenticationError\<close> is retryable exactly when \<open>retryAttempt <
  maxRetries\<close>; one made by \<open>NewAuthenticationError\<close> starts with \<open>retryAttempt\<close> 0 and
  \<open>maxRetries\<close> 3, so it is retryable after 0, 1 and 2 calls of
  \<open>IncrementRetryAttempt\<close> and not retryable after 3.
\<close>

theorem IsRetryable_three_attempts:
  "(IsRetryable e \<longleftrightarrow> RetryAttempt e < MaxRetries e)
   \<and> RetryAttempt (NewAuthenticationError message cause) = 0
   \<and> MaxRetries (NewAuthenticationError message cause) = 3
   \<and> IsRetryable (NewAuthenticationError message cause)
   \<and> IsRetryable (IncrementRetryAttempt (NewAuthenticationError message cause))
   \<and> IsRetryable (IncrementRetryAttempt (IncrementRetryAttempt
        (NewAuthenticationError message cause)))
   \<and> \<not> IsRetryable (IncrementRetryAttempt (IncrementRetryAttempt (IncrementRetryAttempt
        (NewAuthenticationError message cause))))"
  by (simp add: IsRetryable_def IncrementRetryAttempt_def NewAuthenticationError_def)

subsection \<open>Processing\<close>

lemma float64_nonneg: "0 \<le> float64 x"
  unfolding float64_def by (rule of_nat_0_le_iff)

lemma CompleteProcess_percent:
  "MemoryIncreasePercent (MemoryStats (Metadata (CompleteProcess now memStats p)))
     = (if PeakAllocBytes (MemoryStats (Metadata p)) > 0
        then float64 (Alloc memStats - PeakAllocBytes (MemoryStats (Metadata p)))
               / float64 (PeakAllocBytes (MemoryStats (Metadata p))) * 100
        else MemoryIncreasePercent (MemoryStats (Metadata p)))"
  by (simp add: CompleteProcess_def Let_def)

lemma CompleteProcess_percent_nonneg:
  "PeakAllocBytes (MemoryStats (Metadata p)) > 0 \<Longrightarrow>
   0 \<le> MemoryIncreasePercent (MemoryStats (Metadata (CompleteProcess now memStats p)))"
  by (simp add: CompleteProcess_percent float64_nonneg)

text \<open>
  Claim C2 says that \<open>CompleteProcess\<close> sets \<open>MemoryIncreasePercent\<close> to \<open>(finalAlloc -
  initialPeak) / initialPeak * 100\<close>, a negative percentage when the final allocation is
  below the initial peak. The code subtracts in \<open>uint64\<close> before it converts to
  \<open>float64\<close>, so below the peak the difference wraps around: for a run that starts at
  200 allocated bytes and ends at 100, the difference is \<open>2^64 - 100\<close> and the
  percentage is positive, where the claim has \<open>-50\<close>.
\<close>

theorem CompleteProcess_below_peak:
  "unat ((100 :: 64 word) - 200) = 2 ^ 64 - 100
   \<and> MemoryIncreasePercent (MemoryStats (Metadata
      (CompleteProcess 5
         \<lparr>Alloc = 100, TotalAlloc = 300, Sys = 400, MemStats.NumGC = 1\<rparr>
         (NewProcessing 0 \<lparr>Alloc = 200, TotalAlloc = 200, Sys = 400, MemStats.NumGC = 0\<rparr>
            (Some [[1, 2]]) ''run''))))
     = float64 (100 - 200) / float64 200 * 100
   \<and> 0 < MemoryIncreasePercent (MemoryStats (Metadata
      (CompleteProcess 5
         \<lparr>Alloc = 100, TotalAlloc = 300, Sys = 400, MemStats.NumGC = 1\<rparr>
         (NewProcessing 0 \<lparr>Alloc = 200, TotalAlloc = 200, Sys = 400, MemStats.NumGC = 0\<rparr>
            (Some [[1, 2]]) ''run''))))"
  by (simp add: CompleteProcess_percent NewProcessing_def float64_def)

text \<open>
  Claim C9. Each of \<open>AddFilter\<close>, \<open>AddMerge\<close> and \<open>AddAggregation\<close> appends exactly one
  entry to its own log (\<open>AppliedFilters\<close>, \<open>PerformedMerges\<close>, \<open>PerformedAggregations\<close>),
  after the entries that were there, in their order, and leaves the two other logs and
  every other field of the record as they were: the data, the row counts, the times,
  the configuration name, the data source, the memory statistics and the step
  performance.
\<close>

theorem Add_appends_one_entry:
  "AppliedFilters (Metadata (AddFilter p filterExp)) = AppliedFilters (Metadata p) @ [filterExp]
   \<and> PerformedMerges (Metadata (AddFilter p filterExp)) = PerformedMerges (Metadata p)
   \<and> PerformedAggregations (Metadata (AddFilter p filterExp)) = PerformedAggregations (Metadata p)
   \<and> same_but_logs p (AddFilter p filterExp)
   \<and> PerformedMerges (Metadata (AddMerge p firstColumn secondColumn strategy))
       = PerformedMerges (Metadata p)
           @ [firstColumn @ '' + '' @ secondColumn @ '' ('' @ strategy @ '')'']
   \<and> AppliedFilters (Metadata (AddMerge p firstColumn secondColumn strategy))
       = AppliedFilters (Metadata p)
   \<and> PerformedAggregations (Metadata (AddMerge p firstColumn secondColumn strategy))
       = PerformedAggregations (Metadata p)
   \<and> same_but_logs p (AddMerge p firstColumn secondColumn strategy)
   \<and> PerformedAggregations (Metadata (AddAggregation p aggregationMethod targetColumn))
       = PerformedAggregations (Metadata p) @ [aggregationMethod @ ''('' @ targetColumn @ '')'']
   \<and> AppliedFilters (Metadata (AddAggregation p aggregationMethod targetColumn))
       = AppliedFilters (Metadata p)
   \<and> PerformedMerges (Metadata (AddAggregation p aggregationMethod targetColumn))
       = PerformedMerges (Metadata p)
   \<and> same_but_logs p (AddAggregation p aggregationMethod targetColumn)"
  by (simp add: AddFilter_def AddMerge_def AddAggregation_def same_but_logs_def Let_def)

lemma GetColumnCount_cases:
  "GetColumnCount p =
     (case Data p of None \<Rightarrow> Inr 0
      | Some [] \<Rightarrow> Inl (IndexOutOfRange 0 0)
      | Some (row # rows) \<Rightarrow> Inr (int (length row)))"
  by (simp add: GetColumnCount_def index_def split: option.splits list.splits)

text \<open>
  Claim C10 says that \<open>GetColumnCount\<close> returns for every \<open>Processing\<close>, also for one
  whose \<open>Data\<close> is not nil and has no rows. There the code reads \<open>p.Data[0]\<close> and
  panics: index out of range [0] with length 0.
\<close>

theorem GetColumnCount_no_rows_panics:
  "GetColumnCount (NewProcessing now initMemStats (Some []) configName)
     = Inl (IndexOutOfRange 0 0)"
  by (simp add: GetColumnCount_def index_def NewProcessing_def)

end
